theory Spec2Isabelle
  imports Main
begin

section \<open>The store's database schema\<close>

text \<open>
  The repository's logic is its SQL schema: twelve tables and the identity provider's
  \<open>auth.users\<close> that they refer to, their constraints, one trigger and the row-level
  security policies. A table is the list of its rows, a row a
  record with one field per column, a nullable column an \<open>option\<close> (\<open>None\<close> is SQL's
  NULL) and a \<open>not null\<close> or primary-key column a plain value. A statement computes the
  table contents it would leave and commits them only if every declared constraint holds
  on the result; otherwise it reports the violated constraint and the database stays as
  it was. The one check that comes before the statement's own cascade, and decides
  differently from a check on the result, is written out in the delete on \<open>orders\<close>.
\<close>

subsection \<open>Column types\<close>

type_synonym uuid = string
type_synonym timestamptz = nat

text \<open>
  A jsonb value, as far as the schema looks into one: the trigger reads two keys of an
  object with \<open>->>\<close>, which gives NULL for a missing key and for a JSON null, the string
  itself for a JSON string, and the printed form for any other value. \<open>JOther\<close> carries
  that printed form. A stored object has one value per key.
\<close>

datatype jvalue = JNull | JString string | JOther string

datatype jsonb = JObject "(string \<times> jvalue) list" | JNonObject

text \<open>
  Modelled from the spec: the type \<open>order_status\<close> that the column \<open>orders.status\<close> is
  declared with is not declared anywhere in the schema file. It is taken as the closed
  enumeration of lifecycle states that the specification lists, which are the names the
  schema inserts into the table \<open>order_statuses\<close>.
\<close>

datatype order_status =
    pending_payment | created | processing | partially_shipped | shipped
  | out_for_delivery | delivered | return_requested | return_shipped | returned
  | partially_refunded | refunded | canceled

subsection \<open>Tables\<close>

text \<open>
  \<open>auth.users\<close> belongs to the identity provider; the schema only references its key and
  reads \<open>raw_user_meta_data\<close> in the trigger, so these two columns are kept.
\<close>

record auth_users_row =
  au_id :: uuid
  au_raw_user_meta_data :: "jsonb option"

record users_row =
  u_id :: uuid
  u_full_name :: "string option"
  u_avatar_url :: "string option"
  u_billing_address :: "jsonb option"
  u_payment_method :: "jsonb option"

record customers_row =
  cu_id :: uuid
  cu_stripe_customer_id :: "string option"

record sizes_row =
  sz_id :: int
  sz_name :: string
  sz_category :: string
  sz_system :: string

record colors_row =
  co_id :: int
  co_name :: string

text \<open>
  \<open>products.id\<close> is declared \<open>serial\<close>, while both columns that reference it
  (\<open>product_variants.product_id\<close> and \<open>product_changes.product_id\<close>) are \<open>text\<close>. The key
  is given the type of the columns that refer to it, so that the references can be
  compared at all.
\<close>

record products_row =
  pr_id :: string
  pr_active :: "bool option"
  pr_name :: string
  pr_description :: "string option"
  pr_image :: "string option"

record product_variants_row =
  pv_id :: string
  pv_product_id :: "string option"
  pv_size_id :: int
  pv_color_id :: int
  pv_quantity :: "int option"
  pv_created_at :: timestamptz
  pv_images :: "string list option"
  pv_metadata :: "jsonb option"

record product_changes_row =
  pc_id :: string
  pc_product_id :: "string option"
  pc_product_variant_id :: "string option"
  pc_changelog :: "jsonb option"
  pc_created_at :: timestamptz

record prices_row =
  p_id :: string
  p_product_variant_id :: "string option"
  p_active :: "bool option"
  p_description :: "string option"
  p_unit_amount :: "int option"
  p_currency :: "string option"
  p_metadata :: "jsonb option"

record order_statuses_row =
  os_id :: int
  os_name :: string

record orders_row =
  o_id :: string
  o_user_id :: uuid
  o_status :: "order_status option"
  o_total_amount :: "int option"
  o_currency :: "string option"
  o_created_at :: timestamptz
  o_metadata :: "jsonb option"

record order_items_row =
  oi_id :: string
  oi_order_id :: "string option"
  oi_product_variant_id :: "string option"
  oi_quantity :: "int option"
  oi_unit_amount :: "int option"
  oi_currency :: "string option"
  oi_metadata :: "jsonb option"

record order_changes_row =
  oc_id :: string
  oc_order_id :: "string option"
  oc_status :: "string option"
  oc_created_at :: timestamptz
  oc_metadata :: "jsonb option"

record db =
  auth_users :: "auth_users_row list"
  users :: "users_row list"
  customers :: "customers_row list"
  sizes :: "sizes_row list"
  colors :: "colors_row list"
  products :: "products_row list"
  product_variants :: "product_variants_row list"
  product_changes :: "product_changes_row list"
  prices :: "prices_row list"
  order_statuses :: "order_statuses_row list"
  orders :: "orders_row list"
  order_items :: "order_items_row list"
  order_changes :: "order_changes_row list"

definition empty_db :: db where
  "empty_db = \<lparr>auth_users = [], users = [], customers = [], sizes = [], colors = [],
     products = [], product_variants = [], product_changes = [], prices = [],
     order_statuses = [], orders = [], order_items = [], order_changes = []\<rparr>"

subsection \<open>SQL values and constraint kinds\<close>

text \<open>
  A comparison with NULL is unknown (\<open>None\<close>). A \<open>check\<close> constraint rejects a row only
  when its expression is false, so an unknown result passes. A \<open>unique\<close> constraint
  compares only keys without NULL: two rows whose key has a NULL never conflict. A
  foreign key with a NULL column refers to nothing and is satisfied.
\<close>

definition sql_eq :: "'a option \<Rightarrow> 'a option \<Rightarrow> bool option" where
  "sql_eq a b = (case a of None \<Rightarrow> None
                 | Some x \<Rightarrow> (case b of None \<Rightarrow> None | Some y \<Rightarrow> Some (x = y)))"

definition sql_ge :: "int option \<Rightarrow> int option \<Rightarrow> bool option" where
  "sql_ge a b = (case a of None \<Rightarrow> None
                 | Some x \<Rightarrow> (case b of None \<Rightarrow> None | Some y \<Rightarrow> Some (x \<ge> y)))"

definition char_length :: "string option \<Rightarrow> int option" where
  "char_length s = (case s of None \<Rightarrow> None | Some cs \<Rightarrow> Some (int (length cs)))"

definition check_constraint :: "('r \<Rightarrow> bool option) \<Rightarrow> 'r list \<Rightarrow> bool" where
  "check_constraint e rows = list_all (\<lambda>r. e r \<noteq> Some False) rows"

definition primary_key :: "('r \<Rightarrow> 'k) \<Rightarrow> 'r list \<Rightarrow> bool" where
  "primary_key k rows = distinct (map k rows)"

definition unique_constraint :: "('r \<Rightarrow> 'k option) \<Rightarrow> 'r list \<Rightarrow> bool" where
  "unique_constraint k rows = distinct (List.map_filter k rows)"

definition foreign_key :: "('r \<Rightarrow> 'k option) \<Rightarrow> 'r list \<Rightarrow> ('p \<Rightarrow> 'k) \<Rightarrow> 'p list \<Rightarrow> bool" where
  "foreign_key f rows k parents =
     list_all (\<lambda>r. case f r of None \<Rightarrow> True | Some x \<Rightarrow> x \<in> set (map k parents)) rows"

text \<open>The two \<open>check\<close> expressions of the schema.\<close>

definition quantity_non_negative :: "int option \<Rightarrow> bool option" where
  "quantity_non_negative q = sql_ge q (Some 0)"

definition currency_length_3 :: "string option \<Rightarrow> bool option" where
  "currency_length_3 c = sql_eq (char_length c) (Some 3)"

text \<open>The key of \<open>unique (product_id, size_id, color_id)\<close>; \<open>product_id\<close> is nullable.\<close>

definition variant_key :: "product_variants_row \<Rightarrow> (string \<times> int \<times> int) option" where
  "variant_key v = (case pv_product_id v of None \<Rightarrow> None
                    | Some p \<Rightarrow> Some (p, pv_size_id v, pv_color_id v))"

text \<open>The (product, size, color) combination of a variant, as the row holds it.\<close>

definition variant_triple :: "product_variants_row \<Rightarrow> string option \<times> int \<times> int" where
  "variant_triple v = (pv_product_id v, pv_size_id v, pv_color_id v)"

subsection \<open>The declared constraints\<close>

text \<open>
  Every constraint of the schema, in the order of the file, under the name the
  declaration gives it (the name PostgreSQL derives when the declaration gives none).
  \<open>product_variants\<close> declares the quantity check twice and \<open>order_items\<close> declares the
  reference to \<open>orders\<close> twice, once inline and once as \<open>fk_order_items_order_id\<close> with
  \<open>on delete cascade\<close>. The line \<open>unique (product_id, size_id, color_id)\<close> is read as the
  table constraint that its comment describes.
\<close>

definition constraints :: "(string \<times> (db \<Rightarrow> bool)) list" where
  "constraints = [
    (''auth.users_pkey'', \<lambda>d. primary_key au_id (auth_users d)),
    (''users_pkey'', \<lambda>d. primary_key u_id (users d)),
    (''users_id_fkey'', \<lambda>d. foreign_key (\<lambda>r. Some (u_id r)) (users d) au_id (auth_users d)),
    (''customers_pkey'', \<lambda>d. primary_key cu_id (customers d)),
    (''customers_id_fkey'',
       \<lambda>d. foreign_key (\<lambda>r. Some (cu_id r)) (customers d) au_id (auth_users d)),
    (''sizes_pkey'', \<lambda>d. primary_key sz_id (sizes d)),
    (''sizes_name_key'', \<lambda>d. unique_constraint (\<lambda>r. Some (sz_name r)) (sizes d)),
    (''colors_pkey'', \<lambda>d. primary_key co_id (colors d)),
    (''colors_name_key'', \<lambda>d. unique_constraint (\<lambda>r. Some (co_name r)) (colors d)),
    (''products_pkey'', \<lambda>d. primary_key pr_id (products d)),
    (''product_variants_pkey'', \<lambda>d. primary_key pv_id (product_variants d)),
    (''product_variants_product_id_fkey'',
       \<lambda>d. foreign_key pv_product_id (product_variants d) pr_id (products d)),
    (''product_variants_size_id_fkey'',
       \<lambda>d. foreign_key (\<lambda>r. Some (pv_size_id r)) (product_variants d) sz_id (sizes d)),
    (''product_variants_color_id_fkey'',
       \<lambda>d. foreign_key (\<lambda>r. Some (pv_color_id r)) (product_variants d) co_id (colors d)),
    (''product_variants_quantity_check'',
       \<lambda>d. check_constraint (\<lambda>r. quantity_non_negative (pv_quantity r)) (product_variants d)),
    (''product_variants_product_id_size_id_color_id_key'',
       \<lambda>d. unique_constraint variant_key (product_variants d)),
    (''check_quantity_non_negative'',
       \<lambda>d. check_constraint (\<lambda>r. quantity_non_negative (pv_quantity r)) (product_variants d)),
    (''product_changes_pkey'', \<lambda>d. primary_key pc_id (product_changes d)),
    (''product_changes_product_id_fkey'',
       \<lambda>d. foreign_key pc_product_id (product_changes d) pr_id (products d)),
    (''product_changes_product_variant_id_fkey'',
       \<lambda>d. foreign_key pc_product_variant_id (product_changes d) pv_id (product_variants d)),
    (''prices_pkey'', \<lambda>d. primary_key p_id (prices d)),
    (''prices_product_variant_id_fkey'',
       \<lambda>d. foreign_key p_product_variant_id (prices d) pv_id (product_variants d)),
    (''prices_currency_check'',
       \<lambda>d. check_constraint (\<lambda>r. currency_length_3 (p_currency r)) (prices d)),
    (''order_statuses_pkey'', \<lambda>d. primary_key os_id (order_statuses d)),
    (''order_statuses_name_key'',
       \<lambda>d. unique_constraint (\<lambda>r. Some (os_name r)) (order_statuses d)),
    (''orders_pkey'', \<lambda>d. primary_key o_id (orders d)),
    (''orders_user_id_fkey'',
       \<lambda>d. foreign_key (\<lambda>r. Some (o_user_id r)) (orders d) au_id (auth_users d)),
    (''orders_currency_check'',
       \<lambda>d. check_constraint (\<lambda>r. currency_length_3 (o_currency r)) (orders d)),
    (''order_items_pkey'', \<lambda>d. primary_key oi_id (order_items d)),
    (''order_items_order_id_fkey'',
       \<lambda>d. foreign_key oi_order_id (order_items d) o_id (orders d)),
    (''order_items_product_variant_id_fkey'',
       \<lambda>d. foreign_key oi_product_variant_id (order_items d) pv_id (product_variants d)),
    (''order_items_currency_check'',
       \<lambda>d. check_constraint (\<lambda>r. currency_length_3 (oi_currency r)) (order_items d)),
    (''fk_order_items_order_id'',
       \<lambda>d. foreign_key oi_order_id (order_items d) o_id (orders d)),
    (''order_changes_pkey'', \<lambda>d. primary_key oc_id (order_changes d)),
    (''order_changes_order_id_fkey'',
       \<lambda>d. foreign_key oc_order_id (order_changes d) o_id (orders d))]"

definition db_valid :: "db \<Rightarrow> bool" where
  "db_valid d = list_all (\<lambda>c. snd c d) constraints"

datatype table =
    Users | Customers | Sizes | Colors | Products | ProductVariants | ProductChanges
  | Prices | OrderStatuses | Orders | OrderItems | OrderChanges

datatype error =
    ConstraintViolation string
  | PolicyViolation table
  | CardinalityViolation
  | InvalidEnumLabel string

text \<open>
  The end of a statement: the first violated constraint is reported, and nothing is
  written; with no violation the new contents are the database.
\<close>

definition commit :: "db \<Rightarrow> error + db" where
  "commit d = (case List.find (\<lambda>c. \<not> snd c d) constraints of
                 None \<Rightarrow> Inr d
               | Some c \<Rightarrow> Inl (ConstraintViolation (fst c)))"

text \<open>The database after a statement: a rejected statement leaves it as it was.\<close>

definition state_after :: "(db \<Rightarrow> error + db) \<Rightarrow> db \<Rightarrow> db" where
  "state_after stmt d = (case stmt d of Inl e \<Rightarrow> d | Inr d' \<Rightarrow> d')"

subsection \<open>Statements\<close>

text \<open>
  \<open>insert\<close> adds a row, \<open>update\<close> rewrites the rows its \<open>where\<close> condition selects with
  its \<open>set\<close> clause, \<open>delete\<close> removes the rows its condition selects. These are the
  statements as a session that is not subject to row-level security runs them (the
  table owner, the inventory manager's and the payment webhook's service connection).
  A column left out of an \<open>insert\<close> takes its declared default before the row arrives
  here (\<open>quantity\<close> 0, \<open>active\<close> false, the creation time); the sequences behind the
  \<open>serial\<close> keys are not modelled, a row comes with its key.
\<close>

definition update_rows :: "('r \<Rightarrow> bool) \<Rightarrow> ('r \<Rightarrow> 'r) \<Rightarrow> 'r list \<Rightarrow> 'r list" where
  "update_rows w f rows = map (\<lambda>r. if w r then f r else r) rows"

definition delete_rows :: "('r \<Rightarrow> bool) \<Rightarrow> 'r list \<Rightarrow> 'r list" where
  "delete_rows w rows = filter (\<lambda>r. \<not> w r) rows"

definition insert_users :: "users_row \<Rightarrow> db \<Rightarrow> error + db" where
  "insert_users r d = commit (d\<lparr>users := users d @ [r]\<rparr>)"

definition update_users :: "(users_row \<Rightarrow> bool) \<Rightarrow> (users_row \<Rightarrow> users_row) \<Rightarrow> db \<Rightarrow> error + db" where
  "update_users w f d = commit (d\<lparr>users := update_rows w f (users d)\<rparr>)"

definition delete_users :: "(users_row \<Rightarrow> bool) \<Rightarrow> db \<Rightarrow> error + db" where
  "delete_users w d = commit (d\<lparr>users := delete_rows w (users d)\<rparr>)"

definition insert_customers :: "customers_row \<Rightarrow> db \<Rightarrow> error + db" where
  "insert_customers r d = commit (d\<lparr>customers := customers d @ [r]\<rparr>)"

definition update_customers :: "(customers_row \<Rightarrow> bool) \<Rightarrow> (customers_row \<Rightarrow> customers_row) \<Rightarrow> db \<Rightarrow> error + db" where
  "update_customers w f d = commit (d\<lparr>customers := update_rows w f (customers d)\<rparr>)"

definition delete_customers :: "(customers_row \<Rightarrow> bool) \<Rightarrow> db \<Rightarrow> error + db" where
  "delete_customers w d = commit (d\<lparr>customers := delete_rows w (customers d)\<rparr>)"

definition insert_sizes :: "sizes_row \<Rightarrow> db \<Rightarrow> error + db" where
  "insert_sizes r d = commit (d\<lparr>sizes := sizes d @ [r]\<rparr>)"

definition update_sizes :: "(sizes_row \<Rightarrow> bool) \<Rightarrow> (sizes_row \<Rightarrow> sizes_row) \<Rightarrow> db \<Rightarrow> error + db" where
  "update_sizes w f d = commit (d\<lparr>sizes := update_rows w f (sizes d)\<rparr>)"

definition delete_sizes :: "(sizes_row \<Rightarrow> bool) \<Rightarrow> db \<Rightarrow> error + db" where
  "delete_sizes w d = commit (d\<lparr>sizes := delete_rows w (sizes d)\<rparr>)"

definition insert_colors :: "colors_row \<Rightarrow> db \<Rightarrow> error + db" where
  "insert_colors r d = commit (d\<lparr>colors := colors d @ [r]\<rparr>)"

definition update_colors :: "(colors_row \<Rightarrow> bool) \<Rightarrow> (colors_row \<Rightarrow> colors_row) \<Rightarrow> db \<Rightarrow> error + db" where
  "update_colors w f d = commit (d\<lparr>colors := update_rows w f (colors d)\<rparr>)"

definition delete_colors :: "(colors_row \<Rightarrow> bool) \<Rightarrow> db \<Rightarrow> error + db" where
  "delete_colors w d = commit (d\<lparr>colors := delete_rows w (colors d)\<rparr>)"

definition insert_products :: "products_row \<Rightarrow> db \<Rightarrow> error + db" where
  "insert_products r d = commit (d\<lparr>products := products d @ [r]\<rparr>)"

definition update_products :: "(products_row \<Rightarrow> bool) \<Rightarrow> (products_row \<Rightarrow> products_row) \<Rightarrow> db \<Rightarrow> error + db" where
  "update_products w f d = commit (d\<lparr>products := update_rows w f (products d)\<rparr>)"

text \<open>
  \<open>product_variants.product_id\<close> is declared \<open>on delete cascade\<close>: deleting products
  deletes the variants that refer to them in the same statement.
\<close>

definition delete_products :: "(products_row \<Rightarrow> bool) \<Rightarrow> db \<Rightarrow> error + db" where
  "delete_products w d = commit (d\<lparr>products := delete_rows w (products d),
        product_variants := delete_rows
          (\<lambda>v. \<exists>x \<in> set (products d). w x \<and> pv_product_id v = Some (pr_id x))
          (product_variants d)\<rparr>)"

definition insert_product_variants :: "product_variants_row \<Rightarrow> db \<Rightarrow> error + db" where
  "insert_product_variants r d = commit (d\<lparr>product_variants := product_variants d @ [r]\<rparr>)"

definition update_product_variants :: "(product_variants_row \<Rightarrow> bool) \<Rightarrow> (product_variants_row \<Rightarrow> product_variants_row) \<Rightarrow> db \<Rightarrow> error + db" where
  "update_product_variants w f d = commit (d\<lparr>product_variants := update_rows w f (product_variants d)\<rparr>)"

definition delete_product_variants :: "(product_variants_row \<Rightarrow> bool) \<Rightarrow> db \<Rightarrow> error + db" where
  "delete_product_variants w d = commit (d\<lparr>product_variants := delete_rows w (product_variants d)\<rparr>)"

definition insert_product_changes :: "product_changes_row \<Rightarrow> db \<Rightarrow> error + db" where
  "insert_product_changes r d = commit (d\<lparr>product_changes := product_changes d @ [r]\<rparr>)"

definition update_product_changes :: "(product_changes_row \<Rightarrow> bool) \<Rightarrow> (product_changes_row \<Rightarrow> product_changes_row) \<Rightarrow> db \<Rightarrow> error + db" where
  "update_product_changes w f d = commit (d\<lparr>product_changes := update_rows w f (product_changes d)\<rparr>)"

definition delete_product_changes :: "(product_changes_row \<Rightarrow> bool) \<Rightarrow> db \<Rightarrow> error + db" where
  "delete_product_changes w d = commit (d\<lparr>product_changes := delete_rows w (product_changes d)\<rparr>)"

definition insert_prices :: "prices_row \<Rightarrow> db \<Rightarrow> error + db" where
  "insert_prices r d = commit (d\<lparr>prices := prices d @ [r]\<rparr>)"

definition update_prices :: "(prices_row \<Rightarrow> bool) \<Rightarrow> (prices_row \<Rightarrow> prices_row) \<Rightarrow> db \<Rightarrow> error + db" where
  "update_prices w f d = commit (d\<lparr>prices := update_rows w f (prices d)\<rparr>)"

definition delete_prices :: "(prices_row \<Rightarrow> bool) \<Rightarrow> db \<Rightarrow> error + db" where
  "delete_prices w d = commit (d\<lparr>prices := delete_rows w (prices d)\<rparr>)"

definition insert_order_statuses :: "order_statuses_row \<Rightarrow> db \<Rightarrow> error + db" where
  "insert_order_statuses r d = commit (d\<lparr>order_statuses := order_statuses d @ [r]\<rparr>)"

definition update_order_statuses :: "(order_statuses_row \<Rightarrow> bool) \<Rightarrow> (order_statuses_row \<Rightarrow> order_statuses_row) \<Rightarrow> db \<Rightarrow> error + db" where
  "update_order_statuses w f d = commit (d\<lparr>order_statuses := update_rows w f (order_statuses d)\<rparr>)"

definition delete_order_statuses :: "(order_statuses_row \<Rightarrow> bool) \<Rightarrow> db \<Rightarrow> error + db" where
  "delete_order_statuses w d = commit (d\<lparr>order_statuses := delete_rows w (order_statuses d)\<rparr>)"

definition insert_orders :: "orders_row \<Rightarrow> db \<Rightarrow> error + db" where
  "insert_orders r d = commit (d\<lparr>orders := orders d @ [r]\<rparr>)"

definition update_orders :: "(orders_row \<Rightarrow> bool) \<Rightarrow> (orders_row \<Rightarrow> orders_row) \<Rightarrow> db \<Rightarrow> error + db" where
  "update_orders w f d = commit (d\<lparr>orders := update_rows w f (orders d)\<rparr>)"

text \<open>
  \<open>order_items.order_id\<close> refers to \<open>orders\<close> twice: inline, with no action on delete
  (\<open>order_items_order_id_fkey\<close>), and again as \<open>fk_order_items_order_id\<close>, declared
  \<open>on delete cascade\<close>. PostgreSQL runs the referential actions of a deleted row in the
  order in which the constraints were created. The inline reference comes first: it
  raises an error as soon as an order item refers to an order being deleted, before
  the cascade of the second reference could delete that item. Only when no order item
  refers to the deleted orders does the statement go on to the cascade, which then
  finds nothing, and to the remaining constraints.
\<close>

definition delete_orders :: "(orders_row \<Rightarrow> bool) \<Rightarrow> db \<Rightarrow> error + db" where
  "delete_orders w d =
     (if \<exists>i \<in> set (order_items d). \<exists>x \<in> set (orders d). w x \<and> oi_order_id i = Some (o_id x)
      then Inl (ConstraintViolation ''order_items_order_id_fkey'')
      else commit (d\<lparr>orders := delete_rows w (orders d),
        order_items := delete_rows
          (\<lambda>i. \<exists>x \<in> set (orders d). w x \<and> oi_order_id i = Some (o_id x))
          (order_items d)\<rparr>))"

definition insert_order_items :: "order_items_row \<Rightarrow> db \<Rightarrow> error + db" where
  "insert_order_items r d = commit (d\<lparr>order_items := order_items d @ [r]\<rparr>)"

definition update_order_items :: "(order_items_row \<Rightarrow> bool) \<Rightarrow> (order_items_row \<Rightarrow> order_items_row) \<Rightarrow> db \<Rightarrow> error + db" where
  "update_order_items w f d = commit (d\<lparr>order_items := update_rows w f (order_items d)\<rparr>)"

definition delete_order_items :: "(order_items_row \<Rightarrow> bool) \<Rightarrow> db \<Rightarrow> error + db" where
  "delete_order_items w d = commit (d\<lparr>order_items := delete_rows w (order_items d)\<rparr>)"

definition insert_order_changes :: "order_changes_row \<Rightarrow> db \<Rightarrow> error + db" where
  "insert_order_changes r d = commit (d\<lparr>order_changes := order_changes d @ [r]\<rparr>)"

definition update_order_changes :: "(order_changes_row \<Rightarrow> bool) \<Rightarrow> (order_changes_row \<Rightarrow> order_changes_row) \<Rightarrow> db \<Rightarrow> error + db" where
  "update_order_changes w f d = commit (d\<lparr>order_changes := update_rows w f (order_changes d)\<rparr>)"

definition delete_order_changes :: "(order_changes_row \<Rightarrow> bool) \<Rightarrow> db \<Rightarrow> error + db" where
  "delete_order_changes w d = commit (d\<lparr>order_changes := delete_rows w (order_changes d)\<rparr>)"

subsection \<open>The identity-provisioning trigger\<close>

text \<open>The operator \<open>->>\<close> on a nullable jsonb column.\<close>

definition jsonb_get_text :: "jsonb option \<Rightarrow> string \<Rightarrow> string option" where
  "jsonb_get_text j k =
     (case j of
        None \<Rightarrow> None
      | Some JNonObject \<Rightarrow> None
      | Some (JObject kvs) \<Rightarrow>
          (case map_of kvs k of
             None \<Rightarrow> None
           | Some JNull \<Rightarrow> None
           | Some (JString t) \<Rightarrow> Some t
           | Some (JOther t) \<Rightarrow> Some t))"

text \<open>
  \<open>handle_new_user\<close> runs after each row inserted into \<open>auth.users\<close>, with the rights of
  its owner (\<open>security definer\<close>), so no policy applies to its insert. The columns it
  does not name are NULL. It is part of the inserting statement: if its row violates a
  constraint, the registration fails with it.
\<close>

definition handle_new_user :: "auth_users_row \<Rightarrow> db \<Rightarrow> db" where
  "handle_new_user new d =
     d\<lparr>users := users d @
        [\<lparr>u_id = au_id new,
          u_full_name = jsonb_get_text (au_raw_user_meta_data new) ''full_name'',
          u_avatar_url = jsonb_get_text (au_raw_user_meta_data new) ''avatar_url'',
          u_billing_address = None,
          u_payment_method = None\<rparr>]\<rparr>"

definition insert_auth_users :: "auth_users_row \<Rightarrow> db \<Rightarrow> error + db" where
  "insert_auth_users new d =
     commit (handle_new_user new (d\<lparr>auth_users := auth_users d @ [new]\<rparr>))"

definition update_auth_users ::
  "(auth_users_row \<Rightarrow> bool) \<Rightarrow> (auth_users_row \<Rightarrow> auth_users_row) \<Rightarrow> db \<Rightarrow> error + db" where
  "update_auth_users w f d = commit (d\<lparr>auth_users := update_rows w f (auth_users d)\<rparr>)"

definition delete_auth_users :: "(auth_users_row \<Rightarrow> bool) \<Rightarrow> db \<Rightarrow> error + db" where
  "delete_auth_users w d = commit (d\<lparr>auth_users := delete_rows w (auth_users d)\<rparr>)"

subsection \<open>Reachable states\<close>

text \<open>
  The states the database can be in: the empty schema, and whatever a committed
  statement leaves.
\<close>

inductive reachable :: "db \<Rightarrow> bool" where
  r_empty: "reachable empty_db"
| r_insert_auth_users: "reachable d \<Longrightarrow> insert_auth_users r d = Inr d' \<Longrightarrow> reachable d'"
| r_update_auth_users: "reachable d \<Longrightarrow> update_auth_users w f d = Inr d' \<Longrightarrow> reachable d'"
| r_delete_auth_users: "reachable d \<Longrightarrow> delete_auth_users w d = Inr d' \<Longrightarrow> reachable d'"
| r_insert_users: "reachable d \<Longrightarrow> insert_users r d = Inr d' \<Longrightarrow> reachable d'"
| r_update_users: "reachable d \<Longrightarrow> update_users w f d = Inr d' \<Longrightarrow> reachable d'"
| r_delete_users: "reachable d \<Longrightarrow> delete_users w d = Inr d' \<Longrightarrow> reachable d'"
| r_insert_customers: "reachable d \<Longrightarrow> insert_customers r d = Inr d' \<Longrightarrow> reachable d'"
| r_update_customers: "reachable d \<Longrightarrow> update_customers w f d = Inr d' \<Longrightarrow> reachable d'"
| r_delete_customers: "reachable d \<Longrightarrow> delete_customers w d = Inr d' \<Longrightarrow> reachable d'"
| r_insert_sizes: "reachable d \<Longrightarrow> insert_sizes r d = Inr d' \<Longrightarrow> reachable d'"
| r_update_sizes: "reachable d \<Longrightarrow> update_sizes w f d = Inr d' \<Longrightarrow> reachable d'"
| r_delete_sizes: "reachable d \<Longrightarrow> delete_sizes w d = Inr d' \<Longrightarrow> reachable d'"
| r_insert_colors: "reachable d \<Longrightarrow> insert_colors r d = Inr d' \<Longrightarrow> reachable d'"
| r_update_colors: "reachable d \<Longrightarrow> update_colors w f d = Inr d' \<Longrightarrow> reachable d'"
| r_delete_colors: "reachable d \<Longrightarrow> delete_colors w d = Inr d' \<Longrightarrow> reachable d'"
| r_insert_products: "reachable d \<Longrightarrow> insert_products r d = Inr d' \<Longrightarrow> reachable d'"
| r_update_products: "reachable d \<Longrightarrow> update_products w f d = Inr d' \<Longrightarrow> reachable d'"
| r_delete_products: "reachable d \<Longrightarrow> delete_products w d = Inr d' \<Longrightarrow> reachable d'"
| r_insert_product_variants: "reachable d \<Longrightarrow> insert_product_variants r d = Inr d' \<Longrightarrow> reachable d'"
| r_update_product_variants: "reachable d \<Longrightarrow> update_product_variants w f d = Inr d' \<Longrightarrow> reachable d'"
| r_delete_product_variants: "reachable d \<Longrightarrow> delete_product_variants w d = Inr d' \<Longrightarrow> reachable d'"
| r_insert_product_changes: "reachable d \<Longrightarrow> insert_product_changes r d = Inr d' \<Longrightarrow> reachable d'"
| r_update_product_changes: "reachable d \<Longrightarrow> update_product_changes w f d = Inr d' \<Longrightarrow> reachable d'"
| r_delete_product_changes: "reachable d \<Longrightarrow> delete_product_changes w d = Inr d' \<Longrightarrow> reachable d'"
| r_insert_prices: "reachable d \<Longrightarrow> insert_prices r d = Inr d' \<Longrightarrow> reachable d'"
| r_update_prices: "reachable d \<Longrightarrow> update_prices w f d = Inr d' \<Longrightarrow> reachable d'"
| r_delete_prices: "reachable d \<Longrightarrow> delete_prices w d = Inr d' \<Longrightarrow> reachable d'"
| r_insert_order_statuses: "reachable d \<Longrightarrow> insert_order_statuses r d = Inr d' \<Longrightarrow> reachable d'"
| r_update_order_statuses: "reachable d \<Longrightarrow> update_order_statuses w f d = Inr d' \<Longrightarrow> reachable d'"
| r_delete_order_statuses: "reachable d \<Longrightarrow> delete_order_statuses w d = Inr d' \<Longrightarrow> reachable d'"
| r_insert_orders: "reachable d \<Longrightarrow> insert_orders r d = Inr d' \<Longrightarrow> reachable d'"
| r_update_orders: "reachable d \<Longrightarrow> update_orders w f d = Inr d' \<Longrightarrow> reachable d'"
| r_delete_orders: "reachable d \<Longrightarrow> delete_orders w d = Inr d' \<Longrightarrow> reachable d'"
| r_insert_order_items: "reachable d \<Longrightarrow> insert_order_items r d = Inr d' \<Longrightarrow> reachable d'"
| r_update_order_items: "reachable d \<Longrightarrow> update_order_items w f d = Inr d' \<Longrightarrow> reachable d'"
| r_delete_order_items: "reachable d \<Longrightarrow> delete_order_items w d = Inr d' \<Longrightarrow> reachable d'"
| r_insert_order_changes: "reachable d \<Longrightarrow> insert_order_changes r d = Inr d' \<Longrightarrow> reachable d'"
| r_update_order_changes: "reachable d \<Longrightarrow> update_order_changes w f d = Inr d' \<Longrightarrow> reachable d'"
| r_delete_order_changes: "reachable d \<Longrightarrow> delete_order_changes w d = Inr d' \<Longrightarrow> reachable d'"

subsection \<open>Row-level security\<close>

text \<open>
  A session that is subject to row-level security acts under a role and carries the
  identity \<open>auth.uid()\<close> of its user, NULL when nobody is signed in. On a table with
  row-level security enabled, a command reaches a row only if some policy declared for
  that command and for the session's role (or for every role, when the policy names
  none) has an expression that is true on the row; with no such policy nothing is
  allowed. A table without row-level security is not filtered.
\<close>

record session =
  sess_role :: string
  sess_uid :: "uuid option"

datatype command = Select | Insert | Update | Delete

datatype anyrow =
    UsersRow users_row
  | CustomersRow customers_row
  | SizesRow sizes_row
  | ColorsRow colors_row
  | ProductsRow products_row
  | ProductVariantsRow product_variants_row
  | ProductChangesRow product_changes_row
  | PricesRow prices_row
  | OrderStatusesRow order_statuses_row
  | OrdersRow orders_row
  | OrderItemsRow order_items_row
  | OrderChangesRow order_changes_row

record policy =
  pol_name :: string
  pol_table :: table
  pol_command :: command
  pol_role :: "string option"
  pol_expr :: "session \<Rightarrow> db \<Rightarrow> anyrow \<Rightarrow> error + bool option"

text \<open>
  A subquery used as a value: no row gives NULL, one row gives its value, more than one
  row is an error.
\<close>

definition scalar_subquery :: "'a list \<Rightarrow> error + 'a option" where
  "scalar_subquery rows = (case rows of
       [] \<Rightarrow> Inr None
     | [x] \<Rightarrow> Inr (Some x)
     | _ \<Rightarrow> Inl CardinalityViolation)"

definition expr_true :: "session \<Rightarrow> db \<Rightarrow> anyrow \<Rightarrow> error + bool option" where
  "expr_true s d r = Inr (Some True)"

text \<open>\<open>auth.uid() = id\<close> on \<open>users\<close>.\<close>

definition expr_own_user :: "session \<Rightarrow> db \<Rightarrow> anyrow \<Rightarrow> error + bool option" where
  "expr_own_user s d r = (case r of
       UsersRow u \<Rightarrow> Inr (sql_eq (sess_uid s) (Some (u_id u)))
     | _ \<Rightarrow> Inr None)"

text \<open>\<open>auth.uid() = user_id\<close> on \<open>orders\<close>.\<close>

definition expr_own_order :: "session \<Rightarrow> db \<Rightarrow> anyrow \<Rightarrow> error + bool option" where
  "expr_own_order s d r = (case r of
       OrdersRow x \<Rightarrow> Inr (sql_eq (sess_uid s) (Some (o_user_id x)))
     | _ \<Rightarrow> Inr None)"

text \<open>
  \<open>auth.uid() = (select user_id from orders where orders.id = order_items.order_id)\<close>
  on \<open>order_items\<close>.
\<close>

definition expr_own_order_item :: "session \<Rightarrow> db \<Rightarrow> anyrow \<Rightarrow> error + bool option" where
  "expr_own_order_item s d r = (case r of
       OrderItemsRow i \<Rightarrow>
         (case scalar_subquery
                 (map o_user_id
                    (filter (\<lambda>x. sql_eq (Some (o_id x)) (oi_order_id i) = Some True) (orders d))) of
            Inl e \<Rightarrow> Inl e
          | Inr owner \<Rightarrow> Inr (sql_eq (sess_uid s) owner))
     | _ \<Rightarrow> Inr None)"

definition rls_enabled :: "table \<Rightarrow> bool" where
  "rls_enabled t = (t \<in> {Users, Customers, Sizes, Colors, Products, ProductVariants,
                         ProductChanges, Prices, Orders, OrderItems})"

definition policies :: "policy list" where
  "policies = [
    \<lparr>pol_name = ''Can view own user data.'', pol_table = Users, pol_command = Select,
      pol_role = None, pol_expr = expr_own_user\<rparr>,
    \<lparr>pol_name = ''Can update own user data.'', pol_table = Users, pol_command = Update,
      pol_role = None, pol_expr = expr_own_user\<rparr>,
    \<lparr>pol_name = ''Allow public read-only access.'', pol_table = Sizes, pol_command = Select,
      pol_role = None, pol_expr = expr_true\<rparr>,
    \<lparr>pol_name = ''Allow admins to insert sizes.'', pol_table = Sizes, pol_command = Insert,
      pol_role = Some ''admin'', pol_expr = expr_true\<rparr>,
    \<lparr>pol_name = ''Allow admins to update sizes.'', pol_table = Sizes, pol_command = Update,
      pol_role = Some ''admin'', pol_expr = expr_true\<rparr>,
    \<lparr>pol_name = ''Allow admins to delete sizes.'', pol_table = Sizes, pol_command = Delete,
      pol_role = Some ''admin'', pol_expr = expr_true\<rparr>,
    \<lparr>pol_name = ''Allow public read-only access.'', pol_table = Colors, pol_command = Select,
      pol_role = None, pol_expr = expr_true\<rparr>,
    \<lparr>pol_name = ''Allow admins to insert colors.'', pol_table = Colors, pol_command = Insert,
      pol_role = Some ''admin'', pol_expr = expr_true\<rparr>,
    \<lparr>pol_name = ''Allow admins to update colors.'', pol_table = Colors, pol_command = Update,
      pol_role = Some ''admin'', pol_expr = expr_true\<rparr>,
    \<lparr>pol_name = ''Allow admins to delete colors.'', pol_table = Colors, pol_command = Delete,
      pol_role = Some ''admin'', pol_expr = expr_true\<rparr>,
    \<lparr>pol_name = ''Allow public read-only access.'', pol_table = Products,
      pol_command = Select, pol_role = None, pol_expr = expr_true\<rparr>,
    \<lparr>pol_name = ''Allow admins to insert products.'', pol_table = Products,
      pol_command = Insert, pol_role = Some ''admin'', pol_expr = expr_true\<rparr>,
    \<lparr>pol_name = ''Allow admins to update products.'', pol_table = Products,
      pol_command = Update, pol_role = Some ''admin'', pol_expr = expr_true\<rparr>,
    \<lparr>pol_name = ''Allow admins to delete products.'', pol_table = Products,
      pol_command = Delete, pol_role = Some ''admin'', pol_expr = expr_true\<rparr>,
    \<lparr>pol_name = ''Allow public read-only access.'', pol_table = ProductVariants,
      pol_command = Select, pol_role = None, pol_expr = expr_true\<rparr>,
    \<lparr>pol_name = ''Allow admins to insert product variants.'', pol_table = ProductVariants,
      pol_command = Insert, pol_role = Some ''admin'', pol_expr = expr_true\<rparr>,
    \<lparr>pol_name = ''Allow admins to update product variants.'', pol_table = ProductVariants,
      pol_command = Update, pol_role = Some ''admin'', pol_expr = expr_true\<rparr>,
    \<lparr>pol_name = ''Allow admins to delete product variants.'', pol_table = ProductVariants,
      pol_command = Delete, pol_role = Some ''admin'', pol_expr = expr_true\<rparr>,
    \<lparr>pol_name = ''Admins can view all product changes.'', pol_table = ProductChanges,
      pol_command = Select, pol_role = Some ''admin'', pol_expr = expr_true\<rparr>,
    \<lparr>pol_name = ''Admins can view all prices.'', pol_table = Prices, pol_command = Select,
      pol_role = Some ''admin'', pol_expr = expr_true\<rparr>,
    \<lparr>pol_name = ''Can only view own orders.'', pol_table = Orders, pol_command = Select,
      pol_role = None, pol_expr = expr_own_order\<rparr>,
    \<lparr>pol_name = ''Can only view own order items.'', pol_table = OrderItems,
      pol_command = Select, pol_role = None, pol_expr = expr_own_order_item\<rparr>]"

definition applies :: "session \<Rightarrow> table \<Rightarrow> command \<Rightarrow> policy \<Rightarrow> bool" where
  "applies s t c p =
     (pol_table p = t \<and> pol_command p = c \<and>
      (pol_role p = None \<or> pol_role p = Some (sess_role s)))"

fun any_true :: "(error + bool option) list \<Rightarrow> error + bool" where
  "any_true [] = Inr False"
| "any_true (Inl e # rest) = Inl e"
| "any_true (Inr b # rest) = (if b = Some True then Inr True else any_true rest)"

definition permitted :: "session \<Rightarrow> db \<Rightarrow> table \<Rightarrow> command \<Rightarrow> anyrow \<Rightarrow> error + bool" where
  "permitted s d t c r =
     (if \<not> rls_enabled t then Inr True
      else any_true (map (\<lambda>p. pol_expr p s d r) (filter (applies s t c) policies)))"

fun policy_filter :: "('r \<Rightarrow> error + bool) \<Rightarrow> 'r list \<Rightarrow> error + 'r list" where
  "policy_filter p [] = Inr []"
| "policy_filter p (r # rs) =
     (case p r of
        Inl e \<Rightarrow> Inl e
      | Inr b \<Rightarrow> (case policy_filter p rs of
                    Inl e \<Rightarrow> Inl e
                  | Inr rs' \<Rightarrow> Inr (if b then r # rs' else rs')))"

text \<open>The rows of a table that a session's command reaches.\<close>

definition rls_rows ::
  "session \<Rightarrow> db \<Rightarrow> table \<Rightarrow> command \<Rightarrow> ('r \<Rightarrow> anyrow) \<Rightarrow> 'r list \<Rightarrow> error + 'r list" where
  "rls_rows s d t c tag rows = policy_filter (\<lambda>r. permitted s d t c (tag r)) rows"

text \<open>
  The statements of a session under row-level security. A \<open>select\<close> returns the rows it
  reaches that its condition selects. An \<open>insert\<close> of a row that no policy admits is an
  error. An \<open>update\<close> or \<open>delete\<close> touches only the rows it reaches, silently; the rows
  an \<open>update\<close> writes must pass the same expression, or the statement is an error.
\<close>

definition rls_select ::
  "session \<Rightarrow> db \<Rightarrow> table \<Rightarrow> ('r \<Rightarrow> anyrow) \<Rightarrow> ('r \<Rightarrow> bool) \<Rightarrow> 'r list \<Rightarrow> error + 'r list" where
  "rls_select s d t tag w rows =
     (case rls_rows s d t Select tag rows of
        Inl e \<Rightarrow> Inl e
      | Inr rs \<Rightarrow> Inr (filter w rs))"

definition rls_insert ::
  "session \<Rightarrow> table \<Rightarrow> anyrow \<Rightarrow> (db \<Rightarrow> error + db) \<Rightarrow> db \<Rightarrow> error + db" where
  "rls_insert s t r stmt d =
     (case permitted s d t Insert r of
        Inl e \<Rightarrow> Inl e
      | Inr ok \<Rightarrow> if ok then stmt d else Inl (PolicyViolation t))"

definition rls_update ::
  "session \<Rightarrow> table \<Rightarrow> ('r \<Rightarrow> anyrow) \<Rightarrow> ('r \<Rightarrow> bool) \<Rightarrow> ('r \<Rightarrow> 'r) \<Rightarrow> 'r list \<Rightarrow>
   (('r \<Rightarrow> bool) \<Rightarrow> ('r \<Rightarrow> 'r) \<Rightarrow> db \<Rightarrow> error + db) \<Rightarrow> db \<Rightarrow> error + db" where
  "rls_update s t tag w f rows stmt d =
     (case rls_rows s d t Update tag (filter w rows) of
        Inl e \<Rightarrow> Inl e
      | Inr rs \<Rightarrow>
          (case rls_rows s d t Update tag (map f rs) of
             Inl e \<Rightarrow> Inl e
           | Inr ok \<Rightarrow> if length ok < length rs then Inl (PolicyViolation t)
                       else stmt (\<lambda>r. r \<in> set rs) f d))"

definition rls_delete ::
  "session \<Rightarrow> table \<Rightarrow> ('r \<Rightarrow> anyrow) \<Rightarrow> ('r \<Rightarrow> bool) \<Rightarrow> 'r list \<Rightarrow>
   (('r \<Rightarrow> bool) \<Rightarrow> db \<Rightarrow> error + db) \<Rightarrow> db \<Rightarrow> error + db" where
  "rls_delete s t tag w rows stmt d =
     (case rls_rows s d t Delete tag (filter w rows) of
        Inl e \<Rightarrow> Inl e
      | Inr rs \<Rightarrow> stmt (\<lambda>r. r \<in> set rs) d)"

definition rls_select_sizes :: "session \<Rightarrow> (sizes_row \<Rightarrow> bool) \<Rightarrow> db \<Rightarrow> error + sizes_row list" where
  "rls_select_sizes s w d = rls_select s d Sizes SizesRow w (sizes d)"

definition rls_insert_sizes :: "session \<Rightarrow> sizes_row \<Rightarrow> db \<Rightarrow> error + db" where
  "rls_insert_sizes s r d = rls_insert s Sizes (SizesRow r) (insert_sizes r) d"

definition rls_update_sizes ::
  "session \<Rightarrow> (sizes_row \<Rightarrow> bool) \<Rightarrow> (sizes_row \<Rightarrow> sizes_row) \<Rightarrow> db \<Rightarrow> error + db" where
  "rls_update_sizes s w f d = rls_update s Sizes SizesRow w f (sizes d) update_sizes d"

definition rls_delete_sizes :: "session \<Rightarrow> (sizes_row \<Rightarrow> bool) \<Rightarrow> db \<Rightarrow> error + db" where
  "rls_delete_sizes s w d = rls_delete s Sizes SizesRow w (sizes d) delete_sizes d"

definition rls_select_colors :: "session \<Rightarrow> (colors_row \<Rightarrow> bool) \<Rightarrow> db \<Rightarrow> error + colors_row list" where
  "rls_select_colors s w d = rls_select s d Colors ColorsRow w (colors d)"

definition rls_insert_colors :: "session \<Rightarrow> colors_row \<Rightarrow> db \<Rightarrow> error + db" where
  "rls_insert_colors s r d = rls_insert s Colors (ColorsRow r) (insert_colors r) d"

definition rls_update_colors ::
  "session \<Rightarrow> (colors_row \<Rightarrow> bool) \<Rightarrow> (colors_row \<Rightarrow> colors_row) \<Rightarrow> db \<Rightarrow> error + db" where
  "rls_update_colors s w f d = rls_update s Colors ColorsRow w f (colors d) update_colors d"

definition rls_delete_colors :: "session \<Rightarrow> (colors_row \<Rightarrow> bool) \<Rightarrow> db \<Rightarrow> error + db" where
  "rls_delete_colors s w d = rls_delete s Colors ColorsRow w (colors d) delete_colors d"

definition rls_select_products :: "session \<Rightarrow> (products_row \<Rightarrow> bool) \<Rightarrow> db \<Rightarrow> error + products_row list" where
  "rls_select_products s w d = rls_select s d Products ProductsRow w (products d)"

definition rls_insert_products :: "session \<Rightarrow> products_row \<Rightarrow> db \<Rightarrow> error + db" where
  "rls_insert_products s r d = rls_insert s Products (ProductsRow r) (insert_products r) d"

definition rls_update_products ::
  "session \<Rightarrow> (products_row \<Rightarrow> bool) \<Rightarrow> (products_row \<Rightarrow> products_row) \<Rightarrow> db \<Rightarrow> error + db" where
  "rls_update_products s w f d = rls_update s Products ProductsRow w f (products d) update_products d"

definition rls_delete_products :: "session \<Rightarrow> (products_row \<Rightarrow> bool) \<Rightarrow> db \<Rightarrow> error + db" where
  "rls_delete_products s w d = rls_delete s Products ProductsRow w (products d) delete_products d"

definition rls_select_product_variants :: "session \<Rightarrow> (product_variants_row \<Rightarrow> bool) \<Rightarrow> db \<Rightarrow> error + product_variants_row list" where
  "rls_select_product_variants s w d = rls_select s d ProductVariants ProductVariantsRow w (product_variants d)"

definition rls_insert_product_variants :: "session \<Rightarrow> product_variants_row \<Rightarrow> db \<Rightarrow> error + db" where
  "rls_insert_product_variants s r d = rls_insert s ProductVariants (ProductVariantsRow r) (insert_product_variants r) d"

definition rls_update_product_variants ::
  "session \<Rightarrow> (product_variants_row \<Rightarrow> bool) \<Rightarrow> (product_variants_row \<Rightarrow> product_variants_row) \<Rightarrow> db \<Rightarrow> error + db" where
  "rls_update_product_variants s w f d = rls_update s ProductVariants ProductVariantsRow w f (product_variants d) update_product_variants d"

definition rls_delete_product_variants :: "session \<Rightarrow> (product_variants_row \<Rightarrow> bool) \<Rightarrow> db \<Rightarrow> error + db" where
  "rls_delete_product_variants s w d = rls_delete s ProductVariants ProductVariantsRow w (product_variants d) delete_product_variants d"

definition rls_select_product_changes :: "session \<Rightarrow> (product_changes_row \<Rightarrow> bool) \<Rightarrow> db \<Rightarrow> error + product_changes_row list" where
  "rls_select_product_changes s w d = rls_select s d ProductChanges ProductChangesRow w (product_changes d)"

definition rls_insert_product_changes :: "session \<Rightarrow> product_changes_row \<Rightarrow> db \<Rightarrow> error + db" where
  "rls_insert_product_changes s r d = rls_insert s ProductChanges (ProductChangesRow r) (insert_product_changes r) d"

definition rls_update_product_changes ::
  "session \<Rightarrow> (product_changes_row \<Rightarrow> bool) \<Rightarrow> (product_changes_row \<Rightarrow> product_changes_row) \<Rightarrow> db \<Rightarrow> error + db" where
  "rls_update_product_changes s w f d = rls_update s ProductChanges ProductChangesRow w f (product_changes d) update_product_changes d"

definition rls_delete_product_changes :: "session \<Rightarrow> (product_changes_row \<Rightarrow> bool) \<Rightarrow> db \<Rightarrow> error + db" where
  "rls_delete_product_changes s w d = rls_delete s ProductChanges ProductChangesRow w (product_changes d) delete_product_changes d"

definition rls_select_orders :: "session \<Rightarrow> (orders_row \<Rightarrow> bool) \<Rightarrow> db \<Rightarrow> error + orders_row list" where
  "rls_select_orders s w d = rls_select s d Orders OrdersRow w (orders d)"

definition rls_select_order_items :: "session \<Rightarrow> (order_items_row \<Rightarrow> bool) \<Rightarrow> db \<Rightarrow> error + order_items_row list" where
  "rls_select_order_items s w d = rls_select s d OrderItems OrderItemsRow w (order_items d)"

subsection \<open>Order statuses\<close>

text \<open>
  The values of the schema's \<open>insert into order_statuses (name)\<close>, in its order. The
  keys come from the table's sequence, which counts from 1 on the new table.
\<close>

definition order_statuses_values :: "string list" where
  "order_statuses_values =
     [''pending_payment'', ''created'', ''processing'', ''partially_shipped'', ''shipped'',
      ''out_for_delivery'', ''delivered'', ''return_requested'', ''return_shipped'',
      ''returned'', ''partially_refunded'', ''refunded'', ''canceled'']"

fun numbered_from :: "int \<Rightarrow> string list \<Rightarrow> order_statuses_row list" where
  "numbered_from i [] = []"
| "numbered_from i (n # ns) = \<lparr>os_id = i, os_name = n\<rparr> # numbered_from (i + 1) ns"

definition seed_order_statuses :: "db \<Rightarrow> error + db" where
  "seed_order_statuses d =
     commit (d\<lparr>order_statuses := order_statuses d @ numbered_from 1 order_statuses_values\<rparr>)"

text \<open>
  Modelled from the spec: the labels of the undeclared type \<open>order_status\<close>, and the
  conversion of a text to it, which accepts a label and nothing else.
\<close>

fun order_status_label :: "order_status \<Rightarrow> string" where
  "order_status_label pending_payment = ''pending_payment''"
| "order_status_label created = ''created''"
| "order_status_label processing = ''processing''"
| "order_status_label partially_shipped = ''partially_shipped''"
| "order_status_label shipped = ''shipped''"
| "order_status_label out_for_delivery = ''out_for_delivery''"
| "order_status_label delivered = ''delivered''"
| "order_status_label return_requested = ''return_requested''"
| "order_status_label return_shipped = ''return_shipped''"
| "order_status_label returned = ''returned''"
| "order_status_label partially_refunded = ''partially_refunded''"
| "order_status_label refunded = ''refunded''"
| "order_status_label canceled = ''canceled''"

definition order_status_members :: "order_status list" where
  "order_status_members =
     [pending_payment, created, processing, partially_shipped, shipped, out_for_delivery,
      delivered, return_requested, return_shipped, returned, partially_refunded, refunded,
      canceled]"

definition order_status_of_text :: "string \<Rightarrow> error + order_status" where
  "order_status_of_text t =
     (case List.find (\<lambda>m. order_status_label m = t) order_status_members of
        None \<Rightarrow> Inl (InvalidEnumLabel t)
      | Some m \<Rightarrow> Inr m)"

subsection \<open>The specification's scenarios\<close>

text \<open>
  The concrete rows of the specification's three scenarios, and a few rows with NULL
  in the nullable columns.
\<close>

definition size_small :: sizes_row where
  "size_small = \<lparr>sz_id = 1, sz_name = ''Small'', sz_category = ''Shirt'', sz_system = ''US''\<rparr>"

definition color_red :: colors_row where
  "color_red = \<lparr>co_id = 1, co_name = ''Red''\<rparr>"

definition product_tee :: products_row where
  "product_tee = \<lparr>pr_id = ''1'', pr_active = Some False, pr_name = ''Tee'',
     pr_description = None, pr_image = None\<rparr>"

definition variant_tee :: product_variants_row where
  "variant_tee = \<lparr>pv_id = ''prod_1'', pv_product_id = Some ''1'', pv_size_id = 1,
     pv_color_id = 1, pv_quantity = Some 10, pv_created_at = 0, pv_images = None,
     pv_metadata = None\<rparr>"

definition catalog_db :: db where
  "catalog_db = empty_db\<lparr>sizes := [size_small], colors := [color_red],
     products := [product_tee]\<rparr>"

definition store_db :: db where
  "store_db = catalog_db\<lparr>product_variants := [variant_tee]\<rparr>"

text \<open>A variant that belongs to no product and has no stock figure.\<close>

definition variant_loose :: "string \<Rightarrow> product_variants_row" where
  "variant_loose k = \<lparr>pv_id = k, pv_product_id = None, pv_size_id = 1, pv_color_id = 1,
     pv_quantity = None, pv_created_at = 0, pv_images = None, pv_metadata = None\<rparr>"

definition loose_db :: db where
  "loose_db = catalog_db\<lparr>product_variants := [variant_loose ''prod_2'']\<rparr>"

definition loose_db2 :: db where
  "loose_db2 =
     catalog_db\<lparr>product_variants := [variant_loose ''prod_2'', variant_loose ''prod_3'']\<rparr>"

definition identity_u1 :: auth_users_row where
  "identity_u1 = \<lparr>au_id = ''u1'',
     au_raw_user_meta_data = Some (JObject [(''full_name'', JString ''Ada'')])\<rparr>"

definition identity_u2 :: auth_users_row where
  "identity_u2 = \<lparr>au_id = ''u2'', au_raw_user_meta_data = None\<rparr>"

definition profile_u1 :: users_row where
  "profile_u1 = \<lparr>u_id = ''u1'', u_full_name = Some ''Ada'', u_avatar_url = None,
     u_billing_address = None, u_payment_method = None\<rparr>"

definition profile_u2 :: users_row where
  "profile_u2 = \<lparr>u_id = ''u2'', u_full_name = None, u_avatar_url = None,
     u_billing_address = None, u_payment_method = None\<rparr>"

definition accounts_db :: db where
  "accounts_db = empty_db\<lparr>auth_users := [identity_u1, identity_u2],
     users := [profile_u1, profile_u2]\<rparr>"

definition order_1 :: orders_row where
  "order_1 = \<lparr>o_id = ''order_1'', o_user_id = ''u1'', o_status = Some created,
     o_total_amount = Some 3000, o_currency = Some ''usd'', o_created_at = 0,
     o_metadata = None\<rparr>"

definition item_1 :: order_items_row where
  "item_1 = \<lparr>oi_id = ''order_item_1'', oi_order_id = Some ''order_1'',
     oi_product_variant_id = None, oi_quantity = Some 1, oi_unit_amount = Some 1000,
     oi_currency = Some ''usd'', oi_metadata = None\<rparr>"

definition item_2 :: order_items_row where
  "item_2 = \<lparr>oi_id = ''order_item_2'', oi_order_id = Some ''order_1'',
     oi_product_variant_id = None, oi_quantity = Some 2, oi_unit_amount = Some 1000,
     oi_currency = Some ''usd'', oi_metadata = None\<rparr>"

text \<open>An order item that belongs to no order.\<close>

definition item_3 :: order_items_row where
  "item_3 = \<lparr>oi_id = ''order_item_3'', oi_order_id = None,
     oi_product_variant_id = None, oi_quantity = Some 1, oi_unit_amount = Some 500,
     oi_currency = Some ''usd'', oi_metadata = None\<rparr>"

definition orders_db :: db where
  "orders_db = accounts_db\<lparr>orders := [order_1], order_items := [item_1, item_2, item_3]\<rparr>"

text \<open>An order with neither status nor currency, and a price with no currency.\<close>

definition order_2 :: orders_row where
  "order_2 = \<lparr>o_id = ''order_2'', o_user_id = ''u2'', o_status = None,
     o_total_amount = None, o_currency = None, o_created_at = 0, o_metadata = None\<rparr>"

definition price_1 :: prices_row where
  "price_1 = \<lparr>p_id = ''price_1'', p_product_variant_id = None, p_active = None,
     p_description = None, p_unit_amount = Some 1000, p_currency = None,
     p_metadata = None\<rparr>"

definition change_1 :: order_changes_row where
  "change_1 = \<lparr>oc_id = ''order_change_1'', oc_order_id = Some ''order_1'',
     oc_status = Some ''created'', oc_created_at = 0, oc_metadata = None\<rparr>"

definition session_u1 :: session where
  "session_u1 = \<lparr>sess_role = ''authenticated'', sess_uid = Some ''u1''\<rparr>"

definition session_u2 :: session where
  "session_u2 = \<lparr>sess_role = ''authenticated'', sess_uid = Some ''u2''\<rparr>"

definition session_admin :: session where
  "session_admin = \<lparr>sess_role = ''admin'', sess_uid = None\<rparr>"

definition session_anon :: session where
  "session_anon = \<lparr>sess_role = ''anon'', sess_uid = None\<rparr>"

section \<open>Basic facts\<close>

subsection \<open>Committing\<close>

lemma commit_Inr: "commit d = Inr d' \<longleftrightarrow> d' = d \<and> db_valid d"
proof (cases "List.find (\<lambda>c. \<not> snd c d) constraints")
  case None
  then have v: "db_valid d"
    unfolding db_valid_def list_all_iff find_None_iff by blast
  have "commit d = Inr d"
    unfolding commit_def None by simp
  with v show ?thesis by auto
next
  case (Some c)
  then have "c \<in> set constraints" "\<not> snd c d"
    by (auto simp: find_Some_iff)
  then have v: "\<not> db_valid d"
    unfolding db_valid_def list_all_iff by blast
  have "commit d = Inl (ConstraintViolation (fst c))"
    unfolding commit_def Some by simp
  with v show ?thesis by auto
qed

lemma commit_isl: "isl (commit d) \<longleftrightarrow> \<not> db_valid d"
  using commit_Inr [of d] by (cases "commit d") auto

lemma commit_invalid: "\<not> db_valid d \<Longrightarrow> isl (commit d)"
  by (simp add: commit_isl)

lemma state_after_rejected: "isl (stmt d) \<Longrightarrow> state_after stmt d = d"
  by (cases "stmt d") (simp_all add: state_after_def)

lemmas constraint_kinds =
  primary_key_def unique_constraint_def foreign_key_def check_constraint_def
  quantity_non_negative_def currency_length_3_def sql_ge_def sql_eq_def char_length_def
  variant_key_def List.map_filter_def

lemmas scenario_defs =
  empty_db_def catalog_db_def store_db_def loose_db_def loose_db2_def accounts_db_def
  orders_db_def size_small_def color_red_def product_tee_def variant_tee_def
  variant_loose_def identity_u1_def identity_u2_def profile_u1_def profile_u2_def
  order_1_def item_1_def item_2_def item_3_def order_2_def price_1_def change_1_def

lemmas statement_defs =
  insert_auth_users_def update_auth_users_def delete_auth_users_def
  insert_users_def update_users_def delete_users_def
  insert_customers_def update_customers_def delete_customers_def
  insert_sizes_def update_sizes_def delete_sizes_def
  insert_colors_def update_colors_def delete_colors_def
  insert_products_def update_products_def delete_products_def
  insert_product_variants_def update_product_variants_def delete_product_variants_def
  insert_product_changes_def update_product_changes_def delete_product_changes_def
  insert_prices_def update_prices_def delete_prices_def
  insert_order_statuses_def update_order_statuses_def delete_order_statuses_def
  insert_orders_def update_orders_def delete_orders_def
  insert_order_items_def update_order_items_def delete_order_items_def
  insert_order_changes_def update_order_changes_def delete_order_changes_def

lemma empty_valid: "db_valid empty_db"
  by (simp add: db_valid_def constraints_def empty_db_def constraint_kinds)

lemma reachable_valid: "reachable d \<Longrightarrow> db_valid d"
  by (induction rule: reachable.induct)
     (simp_all add: empty_valid commit_Inr statement_defs split: if_splits)

subsection \<open>Product variants\<close>

lemma valid_quantity:
  "db_valid d \<Longrightarrow> v \<in> set (product_variants d) \<Longrightarrow> pv_quantity v \<noteq> Some q \<or> 0 \<le> q"
  by (auto simp: db_valid_def constraints_def check_constraint_def list_all_iff
      quantity_non_negative_def sql_ge_def)

lemma invalid_quantity:
  "v \<in> set (product_variants d) \<Longrightarrow> pv_quantity v = Some q \<Longrightarrow> q < 0 \<Longrightarrow> \<not> db_valid d"
  using valid_quantity [of d v q] by auto

lemma valid_variant_key:
  "db_valid d \<Longrightarrow> distinct (List.map_filter variant_key (product_variants d))"
  by (simp add: db_valid_def constraints_def unique_constraint_def)

lemma map_filter_member:
  "x \<in> set xs \<Longrightarrow> k x = Some a \<Longrightarrow> a \<in> set (List.map_filter k xs)"
  by (induction xs) (auto simp: List.map_filter_simps split: option.splits)

lemma distinct_map_filter_nth:
  "distinct (List.map_filter k xs) \<Longrightarrow> i < length xs \<Longrightarrow> j < length xs \<Longrightarrow> i \<noteq> j \<Longrightarrow>
   k (xs ! i) = Some a \<Longrightarrow> k (xs ! j) \<noteq> Some a"
proof (induction xs arbitrary: i j)
  case Nil
  then show ?case by simp
next
  case (Cons x xs)
  show ?case
  proof (cases i)
    case 0
    with Cons.prems obtain j' where j: "j = Suc j'" "j' < length xs"
      by (cases j) auto
    from Cons.prems 0 have "a \<notin> set (List.map_filter k xs)"
      by (simp add: List.map_filter_simps)
    with j map_filter_member [of "xs ! j'" xs k a] show ?thesis
      by auto
  next
    case (Suc i')
    show ?thesis
    proof (cases j)
      case 0
      with Cons.prems Suc have ka: "k (xs ! i') = Some a" "i' < length xs"
        by auto
      then have "a \<in> set (List.map_filter k xs)"
        using map_filter_member [of "xs ! i'" xs k a] by auto
      with Cons.prems(1) 0 show ?thesis
        by (auto simp: List.map_filter_simps split: option.splits)
    next
      case j: (Suc j')
      have "distinct (List.map_filter k xs)"
        using Cons.prems(1) by (simp add: List.map_filter_simps split: option.splits)
      from Cons.IH [OF this, of i' j'] Cons.prems Suc j show ?thesis
        by auto
    qed
  qed
qed

lemma variant_key_triple:
  "pv_product_id v \<noteq> None \<Longrightarrow> variant_triple v = variant_triple r \<Longrightarrow>
   \<exists>a. variant_key v = Some a \<and> variant_key r = Some a"
  by (auto simp: variant_key_def variant_triple_def)

lemma duplicate_key_invalid:
  assumes "x \<in> set xs" "k x = Some a" "k r = Some a"
  shows "\<not> distinct (List.map_filter k (xs @ [r]))"
  using assms map_filter_member [of x xs k a]
  by (simp add: List.map_filter_def)

subsection \<open>The scenarios are reachable\<close>

lemmas validity_eval = db_valid_def constraints_def constraint_kinds

lemma reach_insert_sizes:
  "reachable d \<Longrightarrow> d' = d\<lparr>sizes := sizes d @ [r]\<rparr> \<Longrightarrow> db_valid d' \<Longrightarrow> reachable d'"
  by (rule r_insert_sizes [of d r]) (simp_all add: insert_sizes_def commit_Inr)

lemma reach_insert_colors:
  "reachable d \<Longrightarrow> d' = d\<lparr>colors := colors d @ [r]\<rparr> \<Longrightarrow> db_valid d' \<Longrightarrow> reachable d'"
  by (rule r_insert_colors [of d r]) (simp_all add: insert_colors_def commit_Inr)

lemma reach_insert_products:
  "reachable d \<Longrightarrow> d' = d\<lparr>products := products d @ [r]\<rparr> \<Longrightarrow> db_valid d' \<Longrightarrow> reachable d'"
  by (rule r_insert_products [of d r]) (simp_all add: insert_products_def commit_Inr)

lemma reach_insert_product_variants:
  "reachable d \<Longrightarrow> d' = d\<lparr>product_variants := product_variants d @ [r]\<rparr> \<Longrightarrow> db_valid d' \<Longrightarrow>
   reachable d'"
  by (rule r_insert_product_variants [of d r])
     (simp_all add: insert_product_variants_def commit_Inr)

lemma reach_insert_auth_users:
  "reachable d \<Longrightarrow> d' = handle_new_user r (d\<lparr>auth_users := auth_users d @ [r]\<rparr>) \<Longrightarrow>
   db_valid d' \<Longrightarrow> reachable d'"
  by (rule r_insert_auth_users [of d r]) (simp_all add: insert_auth_users_def commit_Inr)

lemma reach_insert_orders:
  "reachable d \<Longrightarrow> d' = d\<lparr>orders := orders d @ [r]\<rparr> \<Longrightarrow> db_valid d' \<Longrightarrow> reachable d'"
  by (rule r_insert_orders [of d r]) (simp_all add: insert_orders_def commit_Inr)

lemma reach_insert_order_items:
  "reachable d \<Longrightarrow> d' = d\<lparr>order_items := order_items d @ [r]\<rparr> \<Longrightarrow> db_valid d' \<Longrightarrow>
   reachable d'"
  by (rule r_insert_order_items [of d r]) (simp_all add: insert_order_items_def commit_Inr)

lemma reachable_catalog: "reachable catalog_db"
proof -
  have "reachable (empty_db\<lparr>sizes := [size_small]\<rparr>)"
    by (rule reach_insert_sizes [OF r_empty, of _ size_small])
       (simp_all add: scenario_defs validity_eval)
  then have "reachable (empty_db\<lparr>sizes := [size_small], colors := [color_red]\<rparr>)"
    by (rule reach_insert_colors [of _ _ color_red])
       (simp_all add: scenario_defs validity_eval)
  then show ?thesis
    by (rule reach_insert_products [of _ _ product_tee])
       (simp_all add: scenario_defs validity_eval)
qed

lemma reachable_store: "reachable store_db"
  by (rule reach_insert_product_variants [OF reachable_catalog, of _ variant_tee])
     (simp_all add: scenario_defs validity_eval)

lemma reachable_loose: "reachable loose_db"
  by (rule reach_insert_product_variants [OF reachable_catalog, of _ "variant_loose ''prod_2''"])
     (simp_all add: scenario_defs validity_eval)

lemma reachable_loose2: "reachable loose_db2"
  by (rule reach_insert_product_variants [OF reachable_loose, of _ "variant_loose ''prod_3''"])
     (simp_all add: scenario_defs validity_eval)

lemma reachable_accounts: "reachable accounts_db"
proof -
  have "reachable (empty_db\<lparr>auth_users := [identity_u1], users := [profile_u1]\<rparr>)"
    by (rule reach_insert_auth_users [OF r_empty, of _ identity_u1])
       (simp_all add: scenario_defs validity_eval handle_new_user_def jsonb_get_text_def)
  then show ?thesis
    by (rule reach_insert_auth_users [of _ _ identity_u2])
       (simp_all add: scenario_defs validity_eval handle_new_user_def jsonb_get_text_def)
qed

lemma reachable_orders: "reachable orders_db"
proof -
  have "reachable (accounts_db\<lparr>orders := [order_1]\<rparr>)"
    by (rule reach_insert_orders [OF reachable_accounts, of _ order_1])
       (simp_all add: scenario_defs validity_eval)
  then have "reachable (accounts_db\<lparr>orders := [order_1], order_items := [item_1]\<rparr>)"
    by (rule reach_insert_order_items [of _ _ item_1])
       (simp_all add: scenario_defs validity_eval)
  then have "reachable (accounts_db\<lparr>orders := [order_1], order_items := [item_1, item_2]\<rparr>)"
    by (rule reach_insert_order_items [of _ _ item_2])
       (simp_all add: scenario_defs validity_eval)
  then show ?thesis
    by (rule reach_insert_order_items [of _ _ item_3])
       (simp_all add: scenario_defs validity_eval)
qed

section \<open>Stock quantity\<close>

text \<open>
  Claim C1, as the schema has it: in every reachable state the stock quantity of every
  product variant is NULL or at least 0, and an update that would write a negative
  quantity to any row is rejected and leaves the database as it was. The column is
  nullable and both \<open>check (quantity >= 0)\<close> constraints pass on NULL.
\<close>

theorem quantity_null_or_non_negative:
  assumes "reachable d"
  shows "(\<forall>v \<in> set (product_variants d).
            pv_quantity v = None \<or> (\<exists>q. pv_quantity v = Some q \<and> 0 \<le> q)) \<and>
         (\<forall>w f. (\<exists>v \<in> set (product_variants d). w v \<and> (\<exists>q. pv_quantity (f v) = Some q \<and> q < 0)) \<longrightarrow>
            isl (update_product_variants w f d) \<and>
            state_after (update_product_variants w f) d = d)"
proof (intro conjI allI impI ballI)
  fix v assume "v \<in> set (product_variants d)"
  with valid_quantity [OF reachable_valid [OF assms]] 
  show "pv_quantity v = None \<or> (\<exists>q. pv_quantity v = Some q \<and> 0 \<le> q)"
    by (cases "pv_quantity v") auto
next
  fix w and f :: "product_variants_row \<Rightarrow> product_variants_row"
  assume "\<exists>v \<in> set (product_variants d). w v \<and> (\<exists>q. pv_quantity (f v) = Some q \<and> q < 0)"
  then obtain v q where v: "v \<in> set (product_variants d)" "w v" "pv_quantity (f v) = Some q" "q < 0"
    by blast
  let ?d = "d\<lparr>product_variants := update_rows w f (product_variants d)\<rparr>"
  from v have "f v \<in> set (product_variants ?d)"
    by (force simp: update_rows_def)
  from invalid_quantity [OF this v(3,4)]
  show r: "isl (update_product_variants w f d)"
    by (simp add: update_product_variants_def commit_isl)
  then show "state_after (update_product_variants w f) d = d"
    by (rule state_after_rejected)
qed

text \<open>
  Claim C1 as stated, that every row has a quantity that is at least 0, fails: a variant
  inserted with a NULL quantity is accepted.
\<close>

theorem quantity_null_reachable:
  "reachable loose_db \<and> map pv_quantity (product_variants loose_db) = [None]"
  using reachable_loose by (simp add: scenario_defs)

text \<open>
  The specification's scenario: the variant holds 10, the update to -1 is rejected and
  nothing changes.
\<close>

theorem quantity_null_or_non_negative_witness:
  "reachable store_db \<and>
   map pv_quantity (product_variants store_db) = [Some 10] \<and>
   isl (update_product_variants (\<lambda>v. pv_id v = ''prod_1'') (\<lambda>v. v\<lparr>pv_quantity := Some (- 1)\<rparr>) store_db) \<and>
   state_after (update_product_variants (\<lambda>v. pv_id v = ''prod_1'') (\<lambda>v. v\<lparr>pv_quantity := Some (- 1)\<rparr>)) store_db = store_db"
proof -
  have "\<exists>v \<in> set (product_variants store_db). pv_id v = ''prod_1'' \<and>
          (\<exists>q. pv_quantity (v\<lparr>pv_quantity := Some (- 1)\<rparr>) = Some q \<and> q < 0)"
    by (simp add: scenario_defs)
  with quantity_null_or_non_negative [OF reachable_store] reachable_store show ?thesis
    by (simp add: store_db_def variant_tee_def)
qed

section \<open>One variant per product, size and color\<close>

text \<open>
  Claim C2, as the schema has it: in every reachable state two different variant rows
  of which one has a product have different (product, size, color) combinations, and
  inserting a variant with a product whose combination is already there is rejected
  and leaves the database as it was. \<open>product_id\<close> is nullable, and a unique
  constraint never matches a key that contains NULL.
\<close>

theorem variant_triple_unique_unless_null:
  assumes "reachable d"
  shows "(\<forall>i j. i < length (product_variants d) \<and> j < length (product_variants d) \<and> i \<noteq> j \<and>
                pv_product_id (product_variants d ! i) \<noteq> None \<longrightarrow>
            variant_triple (product_variants d ! i) \<noteq> variant_triple (product_variants d ! j)) \<and>
         (\<forall>r. pv_product_id r \<noteq> None \<and> variant_triple r \<in> variant_triple ` set (product_variants d) \<longrightarrow>
            isl (insert_product_variants r d) \<and>
            state_after (insert_product_variants r) d = d)"
proof (intro conjI allI impI)
  fix i j
  assume a: "i < length (product_variants d) \<and> j < length (product_variants d) \<and> i \<noteq> j \<and>
                pv_product_id (product_variants d ! i) \<noteq> None"
  show "variant_triple (product_variants d ! i) \<noteq> variant_triple (product_variants d ! j)"
  proof
    assume "variant_triple (product_variants d ! i) = variant_triple (product_variants d ! j)"
    with a variant_key_triple obtain k where
      "variant_key (product_variants d ! i) = Some k" "variant_key (product_variants d ! j) = Some k"
      by blast
    with distinct_map_filter_nth [OF valid_variant_key [OF reachable_valid [OF assms]], of i j k] a
    show False by simp
  qed
next
  fix r
  assume a: "pv_product_id r \<noteq> None \<and> variant_triple r \<in> variant_triple ` set (product_variants d)"
  then obtain v where v: "v \<in> set (product_variants d)" "variant_triple v = variant_triple r"
    by auto
  with a have "pv_product_id v \<noteq> None"
    by (auto simp: variant_triple_def)
  from variant_key_triple [OF this v(2)] obtain k where
    k: "variant_key v = Some k" "variant_key r = Some k" by blast
  let ?d = "d\<lparr>product_variants := product_variants d @ [r]\<rparr>"
  from duplicate_key_invalid [OF v(1) k] valid_variant_key [of ?d]
  have "\<not> db_valid ?d" by auto
  then show r: "isl (insert_product_variants r d)"
    by (simp add: insert_product_variants_def commit_isl)
  then show "state_after (insert_product_variants r) d = d"
    by (rule state_after_rejected)
qed

text \<open>
  Claim C2 as stated fails for variants without a product: a second variant with the
  same NULL product, size and color is accepted, and the two rows hold the same
  combination.
\<close>

theorem variant_triple_shared_when_null:
  "reachable loose_db \<and>
   insert_product_variants (variant_loose ''prod_3'') loose_db = Inr loose_db2 \<and>
   map variant_triple (product_variants loose_db2) = [(None, 1, 1), (None, 1, 1)]"
  using reachable_loose
  by (simp add: insert_product_variants_def commit_Inr scenario_defs validity_eval variant_triple_def)

text \<open>
  The specification's scenario: a second variant for (Tee, Small, Red) is rejected.
\<close>

theorem variant_triple_unique_unless_null_witness:
  "reachable store_db \<and>
   isl (insert_product_variants (variant_tee\<lparr>pv_id := ''prod_9''\<rparr>) store_db) \<and>
   state_after (insert_product_variants (variant_tee\<lparr>pv_id := ''prod_9''\<rparr>)) store_db = store_db"
proof -
  have "pv_product_id (variant_tee\<lparr>pv_id := ''prod_9''\<rparr>) \<noteq> None \<and>
        variant_triple (variant_tee\<lparr>pv_id := ''prod_9''\<rparr>) \<in> variant_triple ` set (product_variants store_db)"
    by (simp add: scenario_defs variant_triple_def)
  with variant_triple_unique_unless_null [OF reachable_store] reachable_store show ?thesis
    by blast
qed

section \<open>Identity provisioning\<close>

lemma valid_users_fkey:
  "db_valid d \<Longrightarrow> u_id ` set (users d) \<subseteq> au_id ` set (auth_users d)"
  by (auto simp: db_valid_def constraints_def foreign_key_def list_all_iff)

lemma valid_users_pkey: "db_valid d \<Longrightarrow> distinct (map u_id (users d))"
  by (simp add: db_valid_def constraints_def primary_key_def)

lemma registration_valid:
  assumes "db_valid d" "au_id new \<notin> au_id ` set (auth_users d)"
  shows "db_valid (handle_new_user new (d\<lparr>auth_users := auth_users d @ [new]\<rparr>))"
proof -
  from assms valid_users_fkey [OF assms(1)] have "au_id new \<notin> u_id ` set (users d)"
    by blast
  with assms show ?thesis
    by (auto simp: db_valid_def constraints_def handle_new_user_def primary_key_def
        foreign_key_def list_all_iff split: option.splits)
qed

lemma filter_key_last:
  "distinct (map k (xs @ [x])) \<Longrightarrow> filter (\<lambda>y. k y = k x) (xs @ [x]) = [x]"
  by (induction xs) auto

text \<open>
  Claim C3: in a reachable state, registering an identity whose id is new succeeds
  whatever its metadata is; and after every registration that succeeds the rows of
  \<open>users\<close> with the identity's id are exactly one, the row the trigger wrote, with
  \<open>full_name\<close> and \<open>avatar_url\<close> read from the metadata by \<open>->>\<close>: the string when the
  key is there with a string, NULL when the key or the whole metadata is missing.
\<close>

theorem registration_creates_profile:
  assumes "reachable d"
  shows "(au_id new \<notin> au_id ` set (auth_users d) \<longrightarrow> (\<exists>d'. insert_auth_users new d = Inr d')) \<and>
         (\<forall>d'. insert_auth_users new d = Inr d' \<longrightarrow>
            filter (\<lambda>u. u_id u = au_id new) (users d') =
              [\<lparr>u_id = au_id new,
                u_full_name = jsonb_get_text (au_raw_user_meta_data new) ''full_name'',
                u_avatar_url = jsonb_get_text (au_raw_user_meta_data new) ''avatar_url'',
                u_billing_address = None, u_payment_method = None\<rparr>]) \<and>
         (\<forall>kvs k t. map_of kvs k = Some (JString t) \<longrightarrow>
            jsonb_get_text (Some (JObject kvs)) k = Some t) \<and>
         (\<forall>kvs k. map_of kvs k = None \<longrightarrow> jsonb_get_text (Some (JObject kvs)) k = None) \<and>
         (\<forall>k. jsonb_get_text None k = None \<and> jsonb_get_text (Some JNonObject) k = None)"
proof (intro conjI allI impI)
  assume "au_id new \<notin> au_id ` set (auth_users d)"
  from registration_valid [OF reachable_valid [OF assms] this]
  show "\<exists>d'. insert_auth_users new d = Inr d'"
    by (simp add: insert_auth_users_def commit_Inr)
next
  fix d'
  let ?p = "\<lparr>u_id = au_id new,
                u_full_name = jsonb_get_text (au_raw_user_meta_data new) ''full_name'',
                u_avatar_url = jsonb_get_text (au_raw_user_meta_data new) ''avatar_url'',
                u_billing_address = None, u_payment_method = None\<rparr>"
  assume "insert_auth_users new d = Inr d'"
  then have d': "users d' = users d @ [?p]" "db_valid d'"
    by (auto simp: insert_auth_users_def commit_Inr handle_new_user_def)
  from valid_users_pkey [OF d'(2)] d'(1) filter_key_last [of u_id "users d" ?p]
  show "filter (\<lambda>u. u_id u = au_id new) (users d') = [?p]"
    by simp
qed (simp_all add: jsonb_get_text_def)

text \<open>
  The specification's scenario: identity u1 registers with \<open>full_name\<close> Ada, and the
  profile row (u1, Ada) appears.
\<close>

theorem registration_creates_profile_witness:
  "reachable empty_db \<and>
   insert_auth_users identity_u1 empty_db =
     Inr (empty_db\<lparr>auth_users := [identity_u1], users := [profile_u1]\<rparr>) \<and>
   filter (\<lambda>u. u_id u = ''u1'') (users (empty_db\<lparr>auth_users := [identity_u1], users := [profile_u1]\<rparr>)) = [profile_u1]"
proof -
  have "au_id identity_u1 \<notin> au_id ` set (auth_users empty_db)"
    by (simp add: empty_db_def)
  with registration_creates_profile [OF r_empty, of identity_u1] obtain d' where
    d': "insert_auth_users identity_u1 empty_db = Inr d'"
        "filter (\<lambda>u. u_id u = au_id identity_u1) (users d') =
              [\<lparr>u_id = au_id identity_u1,
                u_full_name = jsonb_get_text (au_raw_user_meta_data identity_u1) ''full_name'',
                u_avatar_url = jsonb_get_text (au_raw_user_meta_data identity_u1) ''avatar_url'',
                u_billing_address = None, u_payment_method = None\<rparr>]"
    by blast
  from d'(1) have "d' = empty_db\<lparr>auth_users := [identity_u1], users := [profile_u1]\<rparr>"
    by (simp add: insert_auth_users_def commit_Inr handle_new_user_def scenario_defs jsonb_get_text_def)
  with d' r_empty show ?thesis
    by (simp add: scenario_defs jsonb_get_text_def)
qed

section \<open>Reading orders and order items\<close>

lemma policy_filter_pure:
  "(\<And>r. r \<in> set rs \<Longrightarrow> p r = Inr (q r)) \<Longrightarrow> policy_filter p rs = Inr (filter q rs)"
  by (induction rs) auto

lemma policy_filter_subset:
  "policy_filter p rs = Inr rs' \<Longrightarrow> r \<in> set rs' \<Longrightarrow> r \<in> set rs \<and> p r = Inr True"
proof (induction rs arbitrary: rs')
  case Nil
  then show ?case by simp
next
  case (Cons x xs)
  then show ?case
    by (auto split: sum.splits if_splits)
qed

lemmas policy_eval =
  permitted_def rls_enabled_def policies_def applies_def expr_true_def expr_own_user_def
  expr_own_order_def expr_own_order_item_def

lemma permitted_orders_select:
  "permitted s d Orders Select (OrdersRow x) = Inr (sess_uid s = Some (o_user_id x))"
  by (simp add: policy_eval sql_eq_def split: option.splits)

lemma valid_orders_pkey: "db_valid d \<Longrightarrow> distinct (map o_id (orders d))"
  by (simp add: db_valid_def constraints_def primary_key_def)

lemma distinct_filter_key:
  "distinct (map k xs) \<Longrightarrow>
   filter (\<lambda>x. k x = a) xs = [] \<or> (\<exists>x. filter (\<lambda>x. k x = a) xs = [x])"
proof (induction xs)
  case Nil
  then show ?case by simp
next
  case (Cons x xs)
  show ?case
  proof (cases "k x = a")
    case True
    with Cons.prems have "\<forall>y \<in> set xs. k y \<noteq> a" by (auto simp: image_iff)
    then have "filter (\<lambda>x. k x = a) xs = []" by (simp add: filter_empty_conv)
    with True show ?thesis by simp
  next
    case False
    with Cons show ?thesis by simp
  qed
qed

lemma permitted_order_items_select:
  assumes "distinct (map o_id (orders d))"
  shows "permitted s d OrderItems Select (OrderItemsRow i) =
         Inr (\<exists>x \<in> set (orders d). oi_order_id i = Some (o_id x) \<and> sess_uid s = Some (o_user_id x))"
proof (cases "oi_order_id i")
  case None
  then show ?thesis
    by (simp add: policy_eval sql_eq_def scalar_subquery_def split: option.splits)
next
  case (Some k)
  have f: "filter (\<lambda>x. sql_eq (Some (o_id x)) (oi_order_id i) = Some True) (orders d) =
        filter (\<lambda>x. o_id x = k) (orders d)"
    by (simp add: Some sql_eq_def)
  from distinct_filter_key [OF assms, of k]
  show ?thesis
  proof
    assume e: "filter (\<lambda>x. o_id x = k) (orders d) = []"
    then have "\<forall>x \<in> set (orders d). o_id x \<noteq> k"
      by (simp add: filter_empty_conv)
    with e f Some show ?thesis
      by (auto simp: policy_eval sql_eq_def scalar_subquery_def split: option.splits)
  next
    assume "\<exists>x. filter (\<lambda>x. o_id x = k) (orders d) = [x]"
    then obtain x where x: "filter (\<lambda>x. o_id x = k) (orders d) = [x]" ..
    then have "set (filter (\<lambda>x. o_id x = k) (orders d)) = {x}" by simp
    then have m: "x \<in> set (orders d)" "o_id x = k"
      "\<And>y. y \<in> set (orders d) \<Longrightarrow> o_id y = k \<Longrightarrow> y = x"
      by auto
    have "permitted s d OrderItems Select (OrderItemsRow i) = Inr (sess_uid s = Some (o_user_id x))"
      using x f by (simp add: policy_eval sql_eq_def scalar_subquery_def split: option.splits)
    moreover have "(\<exists>y \<in> set (orders d). oi_order_id i = Some (o_id y) \<and> sess_uid s = Some (o_user_id y))
       = (sess_uid s = Some (o_user_id x))"
      using m Some by (metis option.inject)
    ultimately show ?thesis by simp
  qed
qed

lemma select_orders_rows:
  "rls_select_orders s w d = Inr [x \<leftarrow> orders d. sess_uid s = Some (o_user_id x) \<and> w x]"
  by (simp add: rls_select_orders_def rls_select_def rls_rows_def permitted_orders_select
      policy_filter_pure [where q = "\<lambda>x. sess_uid s = Some (o_user_id x)"])

lemma select_order_items_rows:
  assumes "db_valid d"
  shows "rls_select_order_items s w d =
           Inr [i \<leftarrow> order_items d.
                 (\<exists>x \<in> set (orders d). oi_order_id i = Some (o_id x) \<and>
                    sess_uid s = Some (o_user_id x)) \<and> w i]"
  by (simp add: rls_select_order_items_def rls_select_def rls_rows_def
      permitted_order_items_select [OF valid_orders_pkey [OF assms]]
      policy_filter_pure [where q = "\<lambda>i. \<exists>x \<in> set (orders d). oi_order_id i = Some (o_id x) \<and>
                    sess_uid s = Some (o_user_id x)"])

lemmas session_defs = session_u1_def session_u2_def session_admin_def session_anon_def

text \<open>
  Claim C4: in a reachable state, a select on \<open>orders\<close> by a session of user \<open>u\<close>
  returns exactly the rows its condition selects among the orders whose \<open>user_id\<close> is
  \<open>u\<close>, and a select on \<open>order_items\<close> exactly those among the items whose \<open>order_id\<close>
  names an order whose \<open>user_id\<close> is \<open>u\<close>. Both return rows, not an error; when the
  condition selects only other users' orders or items the result is empty.
\<close>

theorem own_orders_only:
  assumes "reachable d" "sess_uid s = Some u"
  shows "rls_select_orders s w d = Inr [x \<leftarrow> orders d. o_user_id x = u \<and> w x] \<and>
         rls_select_order_items s w' d =
           Inr [i \<leftarrow> order_items d.
                 (\<exists>x \<in> set (orders d). oi_order_id i = Some (o_id x) \<and> o_user_id x = u) \<and> w' i] \<and>
         ((\<forall>x \<in> set (orders d). w x \<longrightarrow> o_user_id x \<noteq> u) \<longrightarrow> rls_select_orders s w d = Inr []) \<and>
         ((\<forall>i \<in> set (order_items d). \<forall>x \<in> set (orders d).
              w' i \<and> oi_order_id i = Some (o_id x) \<longrightarrow> o_user_id x \<noteq> u) \<longrightarrow>
            rls_select_order_items s w' d = Inr [])"
proof -
  have o: "rls_select_orders s w d = Inr [x \<leftarrow> orders d. o_user_id x = u \<and> w x]"
    by (simp add: select_orders_rows assms(2) eq_commute [of u])
  have i: "rls_select_order_items s w' d =
           Inr [i \<leftarrow> order_items d.
                 (\<exists>x \<in> set (orders d). oi_order_id i = Some (o_id x) \<and> o_user_id x = u) \<and> w' i]"
    by (simp add: select_order_items_rows [OF reachable_valid [OF assms(1)]] assms(2)
        eq_commute [of u])
  have "(\<forall>x \<in> set (orders d). w x \<longrightarrow> o_user_id x \<noteq> u) \<Longrightarrow>
        [x \<leftarrow> orders d. o_user_id x = u \<and> w x] = []"
    by (auto simp: filter_empty_conv)
  moreover have "(\<forall>i \<in> set (order_items d). \<forall>x \<in> set (orders d).
              w' i \<and> oi_order_id i = Some (o_id x) \<longrightarrow> o_user_id x \<noteq> u) \<Longrightarrow>
        [i \<leftarrow> order_items d.
                 (\<exists>x \<in> set (orders d). oi_order_id i = Some (o_id x) \<and> o_user_id x = u) \<and> w' i] = []"
    by (auto simp: filter_empty_conv)
  ultimately show ?thesis
    using o i by simp
qed

text \<open>
  The specification's scenario: order_1 belongs to u1 and has two items; u2 asks for
  the order and for the items of order_1 and receives no rows.
\<close>

theorem own_orders_only_witness:
  "reachable orders_db \<and> sess_uid session_u2 = Some ''u2'' \<and>
   rls_select_orders session_u2 (\<lambda>x. o_id x = ''order_1'') orders_db = Inr [] \<and>
   rls_select_order_items session_u2 (\<lambda>i. oi_order_id i = Some ''order_1'') orders_db = Inr []"
proof -
  have u: "sess_uid session_u2 = Some ''u2''"
    by (simp add: session_defs)
  from own_orders_only [OF reachable_orders u, of "\<lambda>x. o_id x = ''order_1''"
      "\<lambda>i. oi_order_id i = Some ''order_1''"] reachable_orders u
  show ?thesis
    by (simp add: scenario_defs)
qed

text \<open>
  Claim C10: for an order item whose \<open>order_id\<close> is NULL, the policy's subquery over
  \<open>orders\<close> returns no row, hence NULL for the owner; the policy expression is not true
  for any session, no select on \<open>order_items\<close> returns the row, and in a reachable state
  the select does return a result.
\<close>

theorem orderless_item_invisible:
  assumes "oi_order_id i = None"
  shows "scalar_subquery (map o_user_id
             (filter (\<lambda>x. sql_eq (Some (o_id x)) (oi_order_id i) = Some True) (orders d))) = Inr None \<and>
         permitted s d OrderItems Select (OrderItemsRow i) = Inr False \<and>
         (\<forall>rows. rls_select_order_items s w d = Inr rows \<longrightarrow> i \<notin> set rows) \<and>
         (reachable d \<longrightarrow> (\<exists>rows. rls_select_order_items s w d = Inr rows))"
proof (intro conjI allI impI)
  show "scalar_subquery (map o_user_id
             (filter (\<lambda>x. sql_eq (Some (o_id x)) (oi_order_id i) = Some True) (orders d))) = Inr None"
    by (simp add: assms sql_eq_def scalar_subquery_def)
  show p: "permitted s d OrderItems Select (OrderItemsRow i) = Inr False"
    by (simp add: assms policy_eval sql_eq_def scalar_subquery_def split: option.splits)
  show "i \<notin> set rows" if "rls_select_order_items s w d = Inr rows" for rows
  proof
    assume m: "i \<in> set rows"
    from that obtain rs where rs:
      "policy_filter (\<lambda>r. permitted s d OrderItems Select (OrderItemsRow r)) (order_items d) = Inr rs"
      "rows = filter w rs"
      by (auto simp: rls_select_order_items_def rls_select_def rls_rows_def split: sum.splits)
    with m have "i \<in> set rs" by simp
    from policy_filter_subset [OF rs(1) this] p show False by simp
  qed
  show "\<exists>rows. rls_select_order_items s w d = Inr rows" if "reachable d"
    by (simp add: select_order_items_rows [OF reachable_valid [OF that]])
qed

text \<open>
  In the scenario's database with a third item that has no order, the owner of order_1
  sees the two items of the order and not the third.
\<close>

theorem orderless_item_invisible_witness:
  "oi_order_id item_3 = None \<and> reachable orders_db \<and>
   rls_select_order_items session_u1 (\<lambda>i. True) orders_db = Inr [item_1, item_2] \<and>
   item_3 \<notin> set [item_1, item_2]"
proof -
  have n: "oi_order_id item_3 = None"
    by (simp add: item_3_def)
  have s: "rls_select_order_items session_u1 (\<lambda>i. True) orders_db = Inr [item_1, item_2]"
    unfolding select_order_items_rows [OF reachable_valid [OF reachable_orders]]
    by (simp add: scenario_defs session_defs)
  from orderless_item_invisible [OF n, of orders_db session_u1 "\<lambda>i. True"] s have "item_3 \<notin> set [item_1, item_2]"
    by blast
  with n s reachable_orders show ?thesis by simp
qed

section \<open>Policies of the catalog tables and of the change log\<close>

lemma permitted_public:
  "t \<in> {Sizes, Colors, Products, ProductVariants} \<Longrightarrow>
   permitted s d t c r = Inr (c = Select \<or> sess_role s = ''admin'')"
  by (cases c) (auto simp: policy_eval)

lemma permitted_product_changes:
  "permitted s d ProductChanges c r = Inr (c = Select \<and> sess_role s = ''admin'')"
  by (cases c) (auto simp: policy_eval)

lemma rls_rows_const:
  "(\<And>r. permitted s d t c (tag r) = Inr b) \<Longrightarrow>
   rls_rows s d t c tag rows = Inr (if b then rows else [])"
  by (simp add: rls_rows_def policy_filter_pure [where q = "\<lambda>r. b"])

lemma rls_select_const:
  "(\<And>r. permitted s d t Select (tag r) = Inr b) \<Longrightarrow>
   rls_select s d t tag w rows = Inr (if b then filter w rows else [])"
  by (simp add: rls_select_def rls_rows_const)

lemma rls_insert_const:
  "permitted s d t Insert r = Inr b \<Longrightarrow>
   rls_insert s t r stmt d = (if b then stmt d else Inl (PolicyViolation t))"
  by (simp add: rls_insert_def)

lemma rls_update_const:
  "(\<And>r. permitted s d t Update (tag r) = Inr b) \<Longrightarrow>
   rls_update s t tag w f rows stmt d = stmt (\<lambda>r. b \<and> r \<in> set rows \<and> w r) f d"
  by (simp add: rls_update_def rls_rows_const)

lemma rls_delete_const:
  "(\<And>r. permitted s d t Delete (tag r) = Inr b) \<Longrightarrow>
   rls_delete s t tag w rows stmt d = stmt (\<lambda>r. b \<and> r \<in> set rows \<and> w r) d"
  by (simp add: rls_delete_def rls_rows_const)

lemma update_rows_member: "update_rows (\<lambda>r. r \<in> set rows \<and> w r) f rows = update_rows w f rows"
  by (simp add: update_rows_def)

lemma delete_rows_member: "delete_rows (\<lambda>r. r \<in> set rows \<and> w r) rows = delete_rows w rows"
  by (simp add: delete_rows_def cong: filter_cong)

lemma update_rows_none: "update_rows (\<lambda>r. False) f rows = rows"
  by (simp add: update_rows_def)

lemma delete_rows_none: "delete_rows (\<lambda>r. False) rows = rows"
  by (simp add: delete_rows_def)

lemma state_after_commit: "state_after commit d = d"
proof (cases "commit d")
  case (Inl e)
  then show ?thesis by (simp add: state_after_def)
next
  case (Inr d')
  then have "d' = d" by (simp add: commit_Inr)
  with Inr show ?thesis by (simp add: state_after_def)
qed

lemma update_sizes_none: "update_sizes (\<lambda>r. False) f d = commit d"
  by (simp add: update_sizes_def update_rows_none)

lemma rls_sizes:
  "rls_select_sizes s w d = Inr (filter w (sizes d))"
  "rls_insert_sizes s r d =
     (if sess_role s = ''admin'' then insert_sizes r d else Inl (PolicyViolation Sizes))"
  "rls_update_sizes s w f d = (if sess_role s = ''admin'' then update_sizes w f d else commit d)"
  "rls_delete_sizes s w d = (if sess_role s = ''admin'' then delete_sizes w d else commit d)"
proof -
  show "rls_select_sizes s w d = Inr (filter w (sizes d))"
    by (simp add: rls_select_sizes_def rls_select_const [where b = True] permitted_public)
  show "rls_insert_sizes s r d =
     (if sess_role s = ''admin'' then insert_sizes r d else Inl (PolicyViolation Sizes))"
    by (simp add: rls_insert_sizes_def permitted_public
        rls_insert_const [where b = "sess_role s = ''admin''"])
  show "rls_update_sizes s w f d = (if sess_role s = ''admin'' then update_sizes w f d else commit d)"
    by (simp add: rls_update_sizes_def permitted_public
        rls_update_const [where b = "sess_role s = ''admin''"]
        update_sizes_def update_rows_member update_rows_none)
  show "rls_delete_sizes s w d = (if sess_role s = ''admin'' then delete_sizes w d else commit d)"
    by (simp add: rls_delete_sizes_def permitted_public
        rls_delete_const [where b = "sess_role s = ''admin''"]
        delete_sizes_def delete_rows_member delete_rows_none cong: bex_cong)
qed

lemma rls_colors:
  "rls_select_colors s w d = Inr (filter w (colors d))"
  "rls_insert_colors s r d =
     (if sess_role s = ''admin'' then insert_colors r d else Inl (PolicyViolation Colors))"
  "rls_update_colors s w f d = (if sess_role s = ''admin'' then update_colors w f d else commit d)"
  "rls_delete_colors s w d = (if sess_role s = ''admin'' then delete_colors w d else commit d)"
proof -
  show "rls_select_colors s w d = Inr (filter w (colors d))"
    by (simp add: rls_select_colors_def rls_select_const [where b = True] permitted_public)
  show "rls_insert_colors s r d =
     (if sess_role s = ''admin'' then insert_colors r d else Inl (PolicyViolation Colors))"
    by (simp add: rls_insert_colors_def permitted_public
        rls_insert_const [where b = "sess_role s = ''admin''"])
  show "rls_update_colors s w f d = (if sess_role s = ''admin'' then update_colors w f d else commit d)"
    by (simp add: rls_update_colors_def permitted_public
        rls_update_const [where b = "sess_role s = ''admin''"]
        update_colors_def update_rows_member update_rows_none)
  show "rls_delete_colors s w d = (if sess_role s = ''admin'' then delete_colors w d else commit d)"
    by (simp add: rls_delete_colors_def permitted_public
        rls_delete_const [where b = "sess_role s = ''admin''"]
        delete_colors_def delete_rows_member delete_rows_none cong: bex_cong)
qed

lemma rls_products:
  "rls_select_products s w d = Inr (filter w (products d))"
  "rls_insert_products s r d =
     (if sess_role s = ''admin'' then insert_products r d else Inl (PolicyViolation Products))"
  "rls_update_products s w f d = (if sess_role s = ''admin'' then update_products w f d else commit d)"
  "rls_delete_products s w d = (if sess_role s = ''admin'' then delete_products w d else commit d)"
proof -
  show "rls_select_products s w d = Inr (filter w (products d))"
    by (simp add: rls_select_products_def rls_select_const [where b = True] permitted_public)
  show "rls_insert_products s r d =
     (if sess_role s = ''admin'' then insert_products r d else Inl (PolicyViolation Products))"
    by (simp add: rls_insert_products_def permitted_public
        rls_insert_const [where b = "sess_role s = ''admin''"])
  show "rls_update_products s w f d = (if sess_role s = ''admin'' then update_products w f d else commit d)"
    by (simp add: rls_update_products_def permitted_public
        rls_update_const [where b = "sess_role s = ''admin''"]
        update_products_def update_rows_member update_rows_none)
  show "rls_delete_products s w d = (if sess_role s = ''admin'' then delete_products w d else commit d)"
    by (simp add: rls_delete_products_def permitted_public
        rls_delete_const [where b = "sess_role s = ''admin''"]
        delete_products_def delete_rows_member delete_rows_none cong: bex_cong)
qed

lemma rls_product_variants:
  "rls_select_product_variants s w d = Inr (filter w (product_variants d))"
  "rls_insert_product_variants s r d =
     (if sess_role s = ''admin'' then insert_product_variants r d else Inl (PolicyViolation ProductVariants))"
  "rls_update_product_variants s w f d = (if sess_role s = ''admin'' then update_product_variants w f d else commit d)"
  "rls_delete_product_variants s w d = (if sess_role s = ''admin'' then delete_product_variants w d else commit d)"
proof -
  show "rls_select_product_variants s w d = Inr (filter w (product_variants d))"
    by (simp add: rls_select_product_variants_def rls_select_const [where b = True] permitted_public)
  show "rls_insert_product_variants s r d =
     (if sess_role s = ''admin'' then insert_product_variants r d else Inl (PolicyViolation ProductVariants))"
    by (simp add: rls_insert_product_variants_def permitted_public
        rls_insert_const [where b = "sess_role s = ''admin''"])
  show "rls_update_product_variants s w f d = (if sess_role s = ''admin'' then update_product_variants w f d else commit d)"
    by (simp add: rls_update_product_variants_def permitted_public
        rls_update_const [where b = "sess_role s = ''admin''"]
        update_product_variants_def update_rows_member update_rows_none)
  show "rls_delete_product_variants s w d = (if sess_role s = ''admin'' then delete_product_variants w d else commit d)"
    by (simp add: rls_delete_product_variants_def permitted_public
        rls_delete_const [where b = "sess_role s = ''admin''"]
        delete_product_variants_def delete_rows_member delete_rows_none cong: bex_cong)
qed

lemma state_after_as_commit: "stmt d = commit d \<Longrightarrow> state_after stmt d = d"
  using state_after_commit [of d] by (simp add: state_after_def)

text \<open>
  Claim C7: on \<open>sizes\<close>, \<open>colors\<close>, \<open>products\<close> and \<open>product_variants\<close> the policies allow
  a select to every session and an insert, update or delete exactly to sessions whose
  role is admin. At the level of statements: a select returns every row its condition
  selects; for an admin an insert, update or delete is the statement itself, decided
  by the constraints alone; for any other role an insert is a policy violation, and an
  update or delete reaches no row and leaves the database as it was.
\<close>

theorem public_read_admin_write:
  "(t \<in> {Sizes, Colors, Products, ProductVariants} \<longrightarrow>
      permitted s d t Select row = Inr True \<and>
      (c \<in> {Insert, Update, Delete} \<longrightarrow>
         permitted s d t c row = Inr (sess_role s = ''admin''))) \<and>
   rls_select_sizes s wz d = Inr (filter wz (sizes d)) \<and>
   rls_select_colors s wc d = Inr (filter wc (colors d)) \<and>
   rls_select_products s wp d = Inr (filter wp (products d)) \<and>
   rls_select_product_variants s wv d = Inr (filter wv (product_variants d)) \<and>
   (if sess_role s = ''admin''
    then
      rls_insert_sizes s rz d = insert_sizes rz d \<and>
      rls_update_sizes s wz fz d = update_sizes wz fz d \<and>
      rls_delete_sizes s wz d = delete_sizes wz d \<and>
      rls_insert_colors s rc d = insert_colors rc d \<and>
      rls_update_colors s wc fc d = update_colors wc fc d \<and>
      rls_delete_colors s wc d = delete_colors wc d \<and>
      rls_insert_products s rp d = insert_products rp d \<and>
      rls_update_products s wp fp d = update_products wp fp d \<and>
      rls_delete_products s wp d = delete_products wp d \<and>
      rls_insert_product_variants s rv d = insert_product_variants rv d \<and>
      rls_update_product_variants s wv fv d = update_product_variants wv fv d \<and>
      rls_delete_product_variants s wv d = delete_product_variants wv d
    else
      rls_insert_sizes s rz d = Inl (PolicyViolation Sizes) \<and>
      state_after (rls_update_sizes s wz fz) d = d \<and>
      state_after (rls_delete_sizes s wz) d = d \<and>
      rls_insert_colors s rc d = Inl (PolicyViolation Colors) \<and>
      state_after (rls_update_colors s wc fc) d = d \<and>
      state_after (rls_delete_colors s wc) d = d \<and>
      rls_insert_products s rp d = Inl (PolicyViolation Products) \<and>
      state_after (rls_update_products s wp fp) d = d \<and>
      state_after (rls_delete_products s wp) d = d \<and>
      rls_insert_product_variants s rv d = Inl (PolicyViolation ProductVariants) \<and>
      state_after (rls_update_product_variants s wv fv) d = d \<and>
      state_after (rls_delete_product_variants s wv) d = d)"
proof (cases "sess_role s = ''admin''")
  case True
  then show ?thesis
    by (auto simp: permitted_public rls_sizes rls_colors rls_products rls_product_variants)
next
  case False
  then show ?thesis
    by (auto simp: permitted_public rls_sizes rls_colors rls_products rls_product_variants
        state_after_as_commit)
qed

text \<open>
  An anonymous session reads the variant of the scenario and may not add a color; the
  admin adds it.
\<close>

theorem public_read_admin_write_witness:
  "rls_select_product_variants session_anon (\<lambda>v. True) store_db = Inr [variant_tee] \<and>
   rls_insert_colors session_anon \<lparr>co_id = 2, co_name = ''Blue''\<rparr> store_db =
     Inl (PolicyViolation Colors) \<and>
   rls_insert_colors session_admin \<lparr>co_id = 2, co_name = ''Blue''\<rparr> store_db =
     Inr (store_db\<lparr>colors := [color_red, \<lparr>co_id = 2, co_name = ''Blue''\<rparr>]\<rparr>)"
proof -
  have "insert_colors \<lparr>co_id = 2, co_name = ''Blue''\<rparr> store_db =
     Inr (store_db\<lparr>colors := [color_red, \<lparr>co_id = 2, co_name = ''Blue''\<rparr>]\<rparr>)"
    by (simp add: insert_colors_def commit_Inr scenario_defs validity_eval)
  with public_read_admin_write [where s = session_anon and d = store_db and wv = "\<lambda>v. True"
      and rc = "\<lparr>co_id = 2, co_name = ''Blue''\<rparr>"]
    public_read_admin_write [where s = session_admin and d = store_db
      and rc = "\<lparr>co_id = 2, co_name = ''Blue''\<rparr>"]
  show ?thesis
    by (simp add: session_defs scenario_defs)
qed

text \<open>
  Claim C9: on \<open>product_changes\<close> the only policy is the admin's select. For every
  session under row-level security, admin included, an insert is a policy violation
  and an update or delete leaves the database as it was; a select returns rows only
  to an admin.
\<close>

theorem product_changes_closed:
  "permitted s d ProductChanges c row = Inr (c = Select \<and> sess_role s = ''admin'') \<and>
   rls_select_product_changes s w d =
     Inr (if sess_role s = ''admin'' then filter w (product_changes d) else []) \<and>
   rls_insert_product_changes s r d = Inl (PolicyViolation ProductChanges) \<and>
   state_after (rls_update_product_changes s w f) d = d \<and>
   state_after (rls_delete_product_changes s w) d = d"
proof -
  have u: "rls_update_product_changes s w f d = commit d"
    by (simp add: rls_update_product_changes_def
        rls_update_const [where b = False] permitted_product_changes
        update_product_changes_def update_rows_none)
  have e: "rls_delete_product_changes s w d = commit d"
    by (simp add: rls_delete_product_changes_def
        rls_delete_const [where b = False] permitted_product_changes
        delete_product_changes_def delete_rows_none)
  have "state_after (rls_update_product_changes s w f) d = d"
    using state_after_commit [of d] by (simp add: state_after_def u)
  moreover have "state_after (rls_delete_product_changes s w) d = d"
    using state_after_commit [of d] by (simp add: state_after_def e)
  ultimately show ?thesis
    by (simp add: permitted_product_changes rls_select_product_changes_def
        rls_select_const [where b = "sess_role s = ''admin''"]
        rls_insert_product_changes_def rls_insert_const [where b = False])
qed


text \<open>
  Even the admin's insert into the change log is refused, and on the scenario's
  database, whose change log is empty, nobody reads a row.
\<close>

theorem product_changes_closed_witness:
  "rls_insert_product_changes session_admin
     \<lparr>pc_id = ''product_change_1'', pc_product_id = Some ''1'', pc_product_variant_id = None,
       pc_changelog = None, pc_created_at = 0\<rparr> store_db =
     Inl (PolicyViolation ProductChanges) \<and>
   rls_select_product_changes session_admin (\<lambda>r. True) store_db = Inr [] \<and>
   rls_select_product_changes session_u1 (\<lambda>r. True) store_db = Inr []"
  using product_changes_closed [of session_admin store_db Select undefined "\<lambda>r. True"]
    product_changes_closed [of session_u1 store_db Select undefined "\<lambda>r. True"]
  by (simp add: session_defs scenario_defs)

section \<open>Currency codes\<close>

lemma currency_check:
  "currency_length_3 c \<noteq> Some False \<longleftrightarrow> c = None \<or> (\<exists>t. c = Some t \<and> length t = 3)"
  by (cases c) (auto simp: currency_length_3_def sql_eq_def char_length_def)

lemma valid_prices_currency:
  "db_valid d \<Longrightarrow> r \<in> set (prices d) \<Longrightarrow>
   p_currency r = None \<or> (\<exists>t. p_currency r = Some t \<and> length t = 3)"
  unfolding currency_check [symmetric]
  by (simp add: db_valid_def constraints_def check_constraint_def list_all_iff)

lemma valid_orders_currency:
  "db_valid d \<Longrightarrow> r \<in> set (orders d) \<Longrightarrow>
   o_currency r = None \<or> (\<exists>t. o_currency r = Some t \<and> length t = 3)"
  unfolding currency_check [symmetric]
  by (simp add: db_valid_def constraints_def check_constraint_def list_all_iff)

lemma valid_order_items_currency:
  "db_valid d \<Longrightarrow> r \<in> set (order_items d) \<Longrightarrow>
   oi_currency r = None \<or> (\<exists>t. oi_currency r = Some t \<and> length t = 3)"
  unfolding currency_check [symmetric]
  by (simp add: db_valid_def constraints_def check_constraint_def list_all_iff)

lemma update_rows_member_written: "x \<in> set rows \<Longrightarrow> w x \<Longrightarrow> f x \<in> set (update_rows w f rows)"
  by (force simp: update_rows_def)

lemma insert_prices_currency:
  "insert_prices r d = Inr d' \<Longrightarrow>
   p_currency r = None \<or> (\<exists>t. p_currency r = Some t \<and> length t = 3)"
  using valid_prices_currency [of d' r] by (auto simp: insert_prices_def commit_Inr)

lemma update_prices_currency:
  "update_prices w f d = Inr d' \<Longrightarrow> x \<in> set (prices d) \<Longrightarrow> w x \<Longrightarrow>
   p_currency (f x) = None \<or> (\<exists>t. p_currency (f x) = Some t \<and> length t = 3)"
  using valid_prices_currency [of d' "f x"] update_rows_member_written [of x "prices d" w f]
  by (auto simp: update_prices_def commit_Inr)

lemma insert_orders_currency:
  "insert_orders r d = Inr d' \<Longrightarrow>
   o_currency r = None \<or> (\<exists>t. o_currency r = Some t \<and> length t = 3)"
  using valid_orders_currency [of d' r] by (auto simp: insert_orders_def commit_Inr)

lemma update_orders_currency:
  "update_orders w f d = Inr d' \<Longrightarrow> x \<in> set (orders d) \<Longrightarrow> w x \<Longrightarrow>
   o_currency (f x) = None \<or> (\<exists>t. o_currency (f x) = Some t \<and> length t = 3)"
  using valid_orders_currency [of d' "f x"] update_rows_member_written [of x "orders d" w f]
  by (auto simp: update_orders_def commit_Inr)

lemma insert_order_items_currency:
  "insert_order_items r d = Inr d' \<Longrightarrow>
   oi_currency r = None \<or> (\<exists>t. oi_currency r = Some t \<and> length t = 3)"
  using valid_order_items_currency [of d' r] by (auto simp: insert_order_items_def commit_Inr)

lemma update_order_items_currency:
  "update_order_items w f d = Inr d' \<Longrightarrow> x \<in> set (order_items d) \<Longrightarrow> w x \<Longrightarrow>
   oi_currency (f x) = None \<or> (\<exists>t. oi_currency (f x) = Some t \<and> length t = 3)"
  using valid_order_items_currency [of d' "f x"]
    update_rows_member_written [of x "order_items d" w f]
  by (auto simp: update_order_items_def commit_Inr)

lemma not_Inr_isl: "(\<And>y. x \<noteq> Inr y) \<Longrightarrow> isl x"
  by (cases x) auto

text \<open>
  Claim C5, as the schema has it: an insert or update on \<open>prices\<close>, \<open>orders\<close> or
  \<open>order_items\<close> is accepted only if every currency it writes is NULL or exactly 3
  characters long; an insert that writes "US" or "USDX", and an update that writes
  either to at least one row, is rejected on each of the three tables. The three
  columns are nullable and \<open>check (char_length(currency) = 3)\<close> passes on NULL.
\<close>

theorem currency_null_or_three_characters:
  "(\<forall>d'. insert_prices rp d = Inr d' \<longrightarrow>
      p_currency rp = None \<or> (\<exists>t. p_currency rp = Some t \<and> length t = 3)) \<and>
   (\<forall>d'. update_prices wp fp d = Inr d' \<longrightarrow>
      (\<forall>x \<in> set (prices d). wp x \<longrightarrow>
         p_currency (fp x) = None \<or> (\<exists>t. p_currency (fp x) = Some t \<and> length t = 3))) \<and>
   (\<forall>d'. insert_orders ro d = Inr d' \<longrightarrow>
      o_currency ro = None \<or> (\<exists>t. o_currency ro = Some t \<and> length t = 3)) \<and>
   (\<forall>d'. update_orders wo fo d = Inr d' \<longrightarrow>
      (\<forall>x \<in> set (orders d). wo x \<longrightarrow>
         o_currency (fo x) = None \<or> (\<exists>t. o_currency (fo x) = Some t \<and> length t = 3))) \<and>
   (\<forall>d'. insert_order_items ri d = Inr d' \<longrightarrow>
      oi_currency ri = None \<or> (\<exists>t. oi_currency ri = Some t \<and> length t = 3)) \<and>
   (\<forall>d'. update_order_items wi fi d = Inr d' \<longrightarrow>
      (\<forall>x \<in> set (order_items d). wi x \<longrightarrow>
         oi_currency (fi x) = None \<or> (\<exists>t. oi_currency (fi x) = Some t \<and> length t = 3))) \<and>
   (c \<in> {''US'', ''USDX''} \<longrightarrow>
      isl (insert_prices (rp\<lparr>p_currency := Some c\<rparr>) d) \<and>
      isl (insert_orders (ro\<lparr>o_currency := Some c\<rparr>) d) \<and>
      isl (insert_order_items (ri\<lparr>oi_currency := Some c\<rparr>) d) \<and>
      ((\<exists>x \<in> set (prices d). wp x) \<longrightarrow>
         isl (update_prices wp (\<lambda>x. (fp x)\<lparr>p_currency := Some c\<rparr>) d)) \<and>
      ((\<exists>x \<in> set (orders d). wo x) \<longrightarrow>
         isl (update_orders wo (\<lambda>x. (fo x)\<lparr>o_currency := Some c\<rparr>) d)) \<and>
      ((\<exists>x \<in> set (order_items d). wi x) \<longrightarrow>
         isl (update_order_items wi (\<lambda>x. (fi x)\<lparr>oi_currency := Some c\<rparr>) d)))"
proof (intro conjI allI impI ballI)
  assume c: "c \<in> {''US'', ''USDX''}"
  then have l: "length c \<noteq> 3" by auto
  show "isl (insert_prices (rp\<lparr>p_currency := Some c\<rparr>) d)"
    using insert_prices_currency [of "rp\<lparr>p_currency := Some c\<rparr>" d] l
    by (intro not_Inr_isl) auto
  show "isl (insert_orders (ro\<lparr>o_currency := Some c\<rparr>) d)"
    using insert_orders_currency [of "ro\<lparr>o_currency := Some c\<rparr>" d] l
    by (intro not_Inr_isl) auto
  show "isl (insert_order_items (ri\<lparr>oi_currency := Some c\<rparr>) d)"
    using insert_order_items_currency [of "ri\<lparr>oi_currency := Some c\<rparr>" d] l
    by (intro not_Inr_isl) auto
  show "isl (update_prices wp (\<lambda>x. (fp x)\<lparr>p_currency := Some c\<rparr>) d)"
    if "\<exists>x \<in> set (prices d). wp x"
    using that update_prices_currency [of wp "\<lambda>x. (fp x)\<lparr>p_currency := Some c\<rparr>" d] l
    by (intro not_Inr_isl) auto
  show "isl (update_orders wo (\<lambda>x. (fo x)\<lparr>o_currency := Some c\<rparr>) d)"
    if "\<exists>x \<in> set (orders d). wo x"
    using that update_orders_currency [of wo "\<lambda>x. (fo x)\<lparr>o_currency := Some c\<rparr>" d] l
    by (intro not_Inr_isl) auto
  show "isl (update_order_items wi (\<lambda>x. (fi x)\<lparr>oi_currency := Some c\<rparr>) d)"
    if "\<exists>x \<in> set (order_items d). wi x"
    using that update_order_items_currency [of wi "\<lambda>x. (fi x)\<lparr>oi_currency := Some c\<rparr>" d] l
    by (intro not_Inr_isl) auto
qed (blast dest: insert_prices_currency update_prices_currency insert_orders_currency
      update_orders_currency insert_order_items_currency update_order_items_currency)+

text \<open>
  Claim C5 as stated, that only exactly-3-character values are accepted, fails on a
  NULL currency: the insert of a price without currency is accepted.
\<close>

theorem currency_null_accepted:
  "insert_prices price_1 empty_db = Inr (empty_db\<lparr>prices := [price_1]\<rparr>) \<and>
   p_currency price_1 = None"
  by (simp add: insert_prices_def commit_Inr scenario_defs validity_eval)

text \<open>
  An order in "usd" is accepted for the registered user u1; the same order in "US" or
  in "USDX" is rejected.
\<close>

theorem currency_null_or_three_characters_witness:
  "insert_orders order_1 accounts_db = Inr (accounts_db\<lparr>orders := [order_1]\<rparr>) \<and>
   o_currency order_1 = Some ''usd'' \<and>
   isl (insert_orders (order_1\<lparr>o_currency := Some ''US''\<rparr>) accounts_db) \<and>
   isl (insert_orders (order_1\<lparr>o_currency := Some ''USDX''\<rparr>) accounts_db)"
proof -
  have "insert_orders order_1 accounts_db = Inr (accounts_db\<lparr>orders := [order_1]\<rparr>)"
    by (simp add: insert_orders_def commit_Inr scenario_defs validity_eval)
  with currency_null_or_three_characters [where ro = order_1 and d = accounts_db and c = "''US''"]
    currency_null_or_three_characters [where ro = order_1 and d = accounts_db and c = "''USDX''"]
  show ?thesis
    by (simp add: order_1_def)
qed

section \<open>Order statuses\<close>

lemma order_status_exhaustive: "m \<in> set order_status_members"
  by (cases m) (simp_all add: order_status_members_def)

lemma order_status_label_member: "order_status_label m \<in> set order_statuses_values"
  by (cases m) (simp_all add: order_statuses_values_def)

lemma order_status_of_text_label: "order_status_of_text (order_status_label m) = Inr m"
  by (cases m) (simp_all add: order_status_of_text_def order_status_members_def)

lemma order_status_of_text_Inr:
  "order_status_of_text t = Inr m \<Longrightarrow> order_status_label m = t"
  by (auto simp: order_status_of_text_def find_Some_iff split: option.splits)

lemma labels_are_values: "map order_status_label order_status_members = order_statuses_values"
  by (simp add: order_status_members_def order_statuses_values_def)

text \<open>
  Claim C6, as the schema has it: the statement that fills \<open>order_statuses\<close> inserts
  exactly the thirteen names, all different; they are the labels of the thirteen
  members of \<open>order_status\<close>, which has no other member, and a text converts to the type
  exactly when it is one of them; and in every reachable state the \<open>status\<close> of every
  order is NULL or a member. The column \<open>orders.status\<close> is nullable.
\<close>

theorem order_status_null_or_member:
  "map order_status_label order_status_members = order_statuses_values \<and>
   length order_statuses_values = 13 \<and> distinct order_statuses_values \<and>
   set order_status_members = UNIV \<and>
   seed_order_statuses empty_db =
     Inr (empty_db\<lparr>order_statuses := numbered_from 1 order_statuses_values\<rparr>) \<and>
   (\<forall>t. (\<exists>m. order_status_of_text t = Inr m) \<longleftrightarrow> t \<in> set order_statuses_values) \<and>
   (reachable d \<longrightarrow>
      (\<forall>x \<in> set (orders d). o_status x = None \<or>
         (\<exists>m. o_status x = Some m \<and> order_status_label m \<in> set order_statuses_values)))"
proof (intro conjI allI impI ballI)
  show "map order_status_label order_status_members = order_statuses_values"
    by (rule labels_are_values)
  show "length order_statuses_values = 13"
    by (simp add: order_statuses_values_def)
  show "distinct order_statuses_values"
    by (simp add: order_statuses_values_def)
  show "set order_status_members = UNIV"
    using order_status_exhaustive by auto
  show "seed_order_statuses empty_db =
     Inr (empty_db\<lparr>order_statuses := numbered_from 1 order_statuses_values\<rparr>)"
    by (simp add: seed_order_statuses_def commit_Inr empty_db_def order_statuses_values_def
        validity_eval)
  show "(\<exists>m. order_status_of_text t = Inr m) \<longleftrightarrow> t \<in> set order_statuses_values" for t
  proof
    assume "\<exists>m. order_status_of_text t = Inr m"
    then obtain m where "order_status_label m = t"
      using order_status_of_text_Inr by blast
    with order_status_label_member [of m] show "t \<in> set order_statuses_values"
      by simp
  next
    assume "t \<in> set order_statuses_values"
    then obtain m where "t = order_status_label m"
      unfolding labels_are_values [symmetric] by auto
    with order_status_of_text_label [of m] show "\<exists>m. order_status_of_text t = Inr m"
      by auto
  qed
  show "o_status x = None \<or>
         (\<exists>m. o_status x = Some m \<and> order_status_label m \<in> set order_statuses_values)" for x
    by (cases "o_status x") (simp_all add: order_status_label_member)
qed

text \<open>
  Claim C6 as stated, that every order's status holds a member, fails on NULL: an order
  inserted without a status is accepted.
\<close>

theorem order_status_null_reachable:
  "reachable (accounts_db\<lparr>orders := [order_2]\<rparr>) \<and>
   map o_status (orders (accounts_db\<lparr>orders := [order_2]\<rparr>)) = [None]"
proof -
  have "reachable (accounts_db\<lparr>orders := [order_2]\<rparr>)"
    by (rule reach_insert_orders [OF reachable_accounts, of _ order_2])
       (simp_all add: scenario_defs validity_eval)
  then show ?thesis
    by (simp add: order_2_def)
qed

text \<open>
  The scenario's order is in status \<open>created\<close>, one of the thirteen; "lost" is not a
  label and does not convert.
\<close>

theorem order_status_null_or_member_witness:
  "reachable orders_db \<and> map o_status (orders orders_db) = [Some created] \<and>
   order_status_label created \<in> set order_statuses_values \<and>
   order_status_of_text ''created'' = Inr created \<and>
   order_status_of_text ''lost'' = Inl (InvalidEnumLabel ''lost'')"
proof -
  from order_status_null_or_member [of orders_db] reachable_orders
  have "\<forall>x \<in> set (orders orders_db). o_status x = None \<or>
         (\<exists>m. o_status x = Some m \<and> order_status_label m \<in> set order_statuses_values)"
    by blast
  then have "order_status_label created \<in> set order_statuses_values"
    by (simp add: scenario_defs)
  with reachable_orders show ?thesis
    by (simp add: scenario_defs order_status_of_text_def order_status_members_def)
qed

section \<open>Deleting an order\<close>

lemma valid_order_items_fkey:
  "db_valid d \<Longrightarrow> i \<in> set (order_items d) \<Longrightarrow> oi_order_id i = Some k \<Longrightarrow>
   k \<in> o_id ` set (orders d)"
  by (auto simp: db_valid_def constraints_def foreign_key_def list_all_iff)

lemma valid_order_changes_fkey:
  "db_valid d \<Longrightarrow> c \<in> set (order_changes d) \<Longrightarrow> oc_order_id c = Some k \<Longrightarrow>
   k \<in> o_id ` set (orders d)"
  by (auto simp: db_valid_def constraints_def foreign_key_def list_all_iff)

text \<open>The inline reference refuses the delete exactly when an order item names the order.\<close>

lemma order_items_refer:
  assumes "db_valid d"
  shows "(\<exists>i \<in> set (order_items d). \<exists>x \<in> set (orders d).
            o_id x = k \<and> oi_order_id i = Some (o_id x)) \<longleftrightarrow>
         (\<exists>i \<in> set (order_items d). oi_order_id i = Some k)"
proof
  assume "\<exists>i \<in> set (order_items d). \<exists>x \<in> set (orders d).
            o_id x = k \<and> oi_order_id i = Some (o_id x)"
  then show "\<exists>i \<in> set (order_items d). oi_order_id i = Some k"
    by blast
next
  assume "\<exists>i \<in> set (order_items d). oi_order_id i = Some k"
  then obtain i where i: "i \<in> set (order_items d)" "oi_order_id i = Some k"
    by blast
  from valid_order_items_fkey [OF assms i] obtain x where "x \<in> set (orders d)" "o_id x = k"
    by auto
  with i show "\<exists>i \<in> set (order_items d). \<exists>x \<in> set (orders d).
            o_id x = k \<and> oi_order_id i = Some (o_id x)"
    by blast
qed

lemma delete_orders_unreferred:
  assumes "\<forall>i \<in> set (order_items d). oi_order_id i \<noteq> Some k"
  shows "delete_orders (\<lambda>x. o_id x = k) d = commit (d\<lparr>orders := [x \<leftarrow> orders d. o_id x \<noteq> k]\<rparr>)"
proof -
  have e: "delete_rows (\<lambda>i. \<exists>x \<in> set (orders d). o_id x = k \<and> oi_order_id i = Some (o_id x))
          (order_items d) = order_items d"
    using assms by (auto simp: delete_rows_def filter_id_conv)
  have g: "\<not> (\<exists>i \<in> set (order_items d). \<exists>x \<in> set (orders d).
            o_id x = k \<and> oi_order_id i = Some (o_id x))"
    using assms by auto
  have "delete_orders (\<lambda>x. o_id x = k) d =
        commit (d\<lparr>orders := delete_rows (\<lambda>x. o_id x = k) (orders d),
          order_items := delete_rows
            (\<lambda>i. \<exists>x \<in> set (orders d). o_id x = k \<and> oi_order_id i = Some (o_id x))
            (order_items d)\<rparr>)"
    unfolding delete_orders_def using g by (rule if_not_P)
  then show ?thesis
    unfolding e by (simp add: delete_rows_def)
qed

lemma db_valid_unfold:
  "db_valid d \<longleftrightarrow>
    primary_key au_id (auth_users d) \<and>
    primary_key u_id (users d) \<and>
    foreign_key (\<lambda>r. Some (u_id r)) (users d) au_id (auth_users d) \<and>
    primary_key cu_id (customers d) \<and>
    foreign_key (\<lambda>r. Some (cu_id r)) (customers d) au_id (auth_users d) \<and>
    primary_key sz_id (sizes d) \<and>
    unique_constraint (\<lambda>r. Some (sz_name r)) (sizes d) \<and>
    primary_key co_id (colors d) \<and>
    unique_constraint (\<lambda>r. Some (co_name r)) (colors d) \<and>
    primary_key pr_id (products d) \<and>
    primary_key pv_id (product_variants d) \<and>
    foreign_key pv_product_id (product_variants d) pr_id (products d) \<and>
    foreign_key (\<lambda>r. Some (pv_size_id r)) (product_variants d) sz_id (sizes d) \<and>
    foreign_key (\<lambda>r. Some (pv_color_id r)) (product_variants d) co_id (colors d) \<and>
    check_constraint (\<lambda>r. quantity_non_negative (pv_quantity r)) (product_variants d) \<and>
    unique_constraint variant_key (product_variants d) \<and>
    primary_key pc_id (product_changes d) \<and>
    foreign_key pc_product_id (product_changes d) pr_id (products d) \<and>
    foreign_key pc_product_variant_id (product_changes d) pv_id (product_variants d) \<and>
    primary_key p_id (prices d) \<and>
    foreign_key p_product_variant_id (prices d) pv_id (product_variants d) \<and>
    check_constraint (\<lambda>r. currency_length_3 (p_currency r)) (prices d) \<and>
    primary_key os_id (order_statuses d) \<and>
    unique_constraint (\<lambda>r. Some (os_name r)) (order_statuses d) \<and>
    primary_key o_id (orders d) \<and>
    foreign_key (\<lambda>r. Some (o_user_id r)) (orders d) au_id (auth_users d) \<and>
    check_constraint (\<lambda>r. currency_length_3 (o_currency r)) (orders d) \<and>
    primary_key oi_id (order_items d) \<and>
    foreign_key oi_order_id (order_items d) o_id (orders d) \<and>
    foreign_key oi_product_variant_id (order_items d) pv_id (product_variants d) \<and>
    check_constraint (\<lambda>r. currency_length_3 (oi_currency r)) (order_items d) \<and>
    primary_key oc_id (order_changes d) \<and>
    foreign_key oc_order_id (order_changes d) o_id (orders d)"
  by (simp add: db_valid_def constraints_def) blast

lemma primary_key_filter: "primary_key k rows \<Longrightarrow> primary_key k (filter P rows)"
  by (simp add: primary_key_def distinct_map_filter)

lemma check_constraint_filter: "check_constraint e rows \<Longrightarrow> check_constraint e (filter P rows)"
  by (simp add: check_constraint_def list_all_iff)

lemma foreign_key_filter:
  "foreign_key f rows k parents \<Longrightarrow> foreign_key f (filter P rows) k parents"
  by (simp add: foreign_key_def list_all_iff)

lemma foreign_key_parents_filter:
  "foreign_key f rows k parents \<Longrightarrow> \<forall>r \<in> set rows. f r \<noteq> Some a \<Longrightarrow>
   foreign_key f rows k (filter (\<lambda>x. k x \<noteq> a) parents)"
  by (fastforce simp: foreign_key_def list_all_iff image_iff split: option.splits)

lemma orders_deleted_valid:
  assumes "db_valid d" "\<forall>i \<in> set (order_items d). oi_order_id i \<noteq> Some k"
    "\<forall>c \<in> set (order_changes d). oc_order_id c \<noteq> Some k"
  shows "db_valid (d\<lparr>orders := [x \<leftarrow> orders d. o_id x \<noteq> k]\<rparr>)"
proof -
  have "foreign_key oi_order_id (order_items d) o_id [x \<leftarrow> orders d. o_id x \<noteq> k]"
    using assms(1,2) unfolding db_valid_unfold
    by (intro foreign_key_parents_filter) auto
  moreover have "foreign_key oc_order_id (order_changes d) o_id [x \<leftarrow> orders d. o_id x \<noteq> k]"
    using assms(1,3) unfolding db_valid_unfold
    by (intro foreign_key_parents_filter) auto
  ultimately show ?thesis
    using assms(1) unfolding db_valid_unfold
    by (simp add: primary_key_filter check_constraint_filter foreign_key_filter)
qed

lemma order_changes_block_delete:
  assumes "db_valid d" "c \<in> set (order_changes d)" "oc_order_id c = Some k"
  shows "\<not> db_valid (d\<lparr>orders := [x \<leftarrow> orders d. o_id x \<noteq> k]\<rparr>)"
proof
  assume "db_valid (d\<lparr>orders := [x \<leftarrow> orders d. o_id x \<noteq> k]\<rparr>)"
  from valid_order_changes_fkey [OF this, of c k] assms(2,3) show False
    by auto
qed

text \<open>
  What deleting the order with key \<open>k\<close> does in a reachable state: it is rejected
  exactly when an order item or a row of \<open>order_changes\<close> refers to the order, and when
  it is accepted it removes the order and nothing else, since no order item referred
  to it.
\<close>

lemma delete_orders_outcome:
  assumes "reachable d"
  shows "(isl (delete_orders (\<lambda>x. o_id x = k) d) \<longleftrightarrow>
            (\<exists>i \<in> set (order_items d). oi_order_id i = Some k) \<or>
            (\<exists>c \<in> set (order_changes d). oc_order_id c = Some k)) \<and>
         (\<forall>d'. delete_orders (\<lambda>x. o_id x = k) d = Inr d' \<longrightarrow>
            d' = d\<lparr>orders := [x \<leftarrow> orders d. o_id x \<noteq> k]\<rparr> \<and>
            (\<forall>i \<in> set (order_items d). oi_order_id i \<noteq> Some k))"
proof (cases "\<exists>i \<in> set (order_items d). oi_order_id i = Some k")
  case True
  with order_items_refer [OF reachable_valid [OF assms], of k]
  have "delete_orders (\<lambda>x. o_id x = k) d = Inl (ConstraintViolation ''order_items_order_id_fkey'')"
    by (simp add: delete_orders_def)
  with True show ?thesis by simp
next
  case False
  then have n: "\<forall>i \<in> set (order_items d). oi_order_id i \<noteq> Some k" by simp
  note v = reachable_valid [OF assms]
  show ?thesis
    unfolding delete_orders_unreferred [OF n] commit_isl commit_Inr
    using n orders_deleted_valid [OF v n] order_changes_block_delete [OF v, of _ k]
    by blast
qed

text \<open>
  Claim C8 says that deleting an order also deletes exactly the order items whose
  \<open>order_id\<close> refers to it. The schema declares that cascade, but it also leaves the
  column's inline reference in place, and so the claim fails on it: in the
  specification's scenario, where order_1 has two order items, deleting order_1 is
  rejected with a violation of \<open>order_items_order_id_fkey\<close>, and the order and its
  items all stay.
\<close>

theorem order_with_items_not_deleted:
  "reachable orders_db \<and>
   [i \<leftarrow> order_items orders_db. oi_order_id i = Some ''order_1''] = [item_1, item_2] \<and>
   delete_orders (\<lambda>x. o_id x = ''order_1'') orders_db =
     Inl (ConstraintViolation ''order_items_order_id_fkey'') \<and>
   state_after (delete_orders (\<lambda>x. o_id x = ''order_1'')) orders_db = orders_db"
proof -
  have "delete_orders (\<lambda>x. o_id x = ''order_1'') orders_db =
     Inl (ConstraintViolation ''order_items_order_id_fkey'')"
    by (simp add: delete_orders_def scenario_defs)
  moreover from this
  have "state_after (delete_orders (\<lambda>x. o_id x = ''order_1'')) orders_db = orders_db"
    by (simp add: state_after_def)
  moreover
  have "[i \<leftarrow> order_items orders_db. oi_order_id i = Some ''order_1''] = [item_1, item_2]"
    by (simp add: scenario_defs)
  ultimately show ?thesis
    using reachable_orders by simp
qed

text \<open>
  An order that no order item and no change-log row refers to is deleted: the order
  of user u1 alone in the database goes, and the database is the accounts again.
\<close>

lemma order_without_items_deleted:
  "delete_orders (\<lambda>x. o_id x = ''order_1'') (accounts_db\<lparr>orders := [order_1]\<rparr>) = Inr accounts_db"
  by (simp add: delete_orders_def delete_rows_def commit_Inr scenario_defs validity_eval)

end
